theory Spec2Isabelle
  imports Main "HOL-Library.Finite_Map" "HOL-Library.Sublist"
begin

section \<open>Python values and exceptions\<close>

text \<open>
  The command-line front end \<^verbatim>\<open>cli.py\<close> handles a projection result, which is a
  Python \<^verbatim>\<open>dict\<close> with string keys. The values it holds are modelled by the scalar
  classes a result carries (strings and numbers), \<^verbatim>\<open>None\<close>, and any other object
  whose class keeps \<^verbatim>\<open>object.__format__\<close> (a list, a tuple, a dict, ...) and for which
  \<^verbatim>\<open>str()\<close> returns, given by the name of its class and the text \<^verbatim>\<open>str()\<close> returns for it.

  A Python string is modelled by its UTF-8 bytes, so that every character of the
  source outside ASCII is the byte sequence \<^verbatim>\<open>print\<close> writes for it.

  A float is an IEEE-754 double: \<open>Finite s m e\<close> is the number \<open>(-1)\<^sup>s \<sqdot> m \<sqdot> 2\<^sup>e\<close>
  (for a double, \<open>m < 2\<^sup>5\<^sup>3\<close> and \<open>-1074 \<le> e \<le> 971\<close>).
\<close>

datatype pyfloat = Finite bool nat int | Infinity bool | NaN

datatype pyval =
    PyNone
  | PyBool bool
  | PyInt int
  | PyFloat pyfloat
  | PyStr string
  | PyObj string string

text \<open>
  An exception is its class and the text \<^verbatim>\<open>str(e)\<close> gives, which is all the program
  reads of it. \<open>UserException n\<close> stands for any other class derived from
  \<^verbatim>\<open>Exception\<close>, \<open>UserBaseException n\<close> for any other class derived from
  \<^verbatim>\<open>BaseException\<close> but not from \<^verbatim>\<open>Exception\<close>.

  \<open>SystemExit code\<close> is \<^verbatim>\<open>SystemExit(code)\<close> with an int as its code.

  \<^verbatim>\<open>asyncio.CancelledError\<close> derives from \<^verbatim>\<open>BaseException\<close> (Python 3.8 and later). What
  becomes of a cancellation that ends the main task depends on where it came from, which
  \<^verbatim>\<open>asyncio.run\<close> keeps track of: \<open>CancelledError True\<close> is the cancellation that the
  \<^verbatim>\<open>SIGINT\<close> handler of \<^verbatim>\<open>asyncio.run\<close> requested of the main task, and that nothing else
  requested (the user pressed Ctrl-C once while the task was waiting);
  \<open>CancelledError False\<close> is any other (raised by the awaited code, or passed on from a
  task it awaited).
\<close>

datatype exc_class =
    KeyError
  | AttributeError
  | TypeError
  | ValueError
  | OverflowError
  | UserException string
  | KeyboardInterrupt
  | SystemExit int
  | GeneratorExit
  | CancelledError bool
  | UserBaseException string

datatype pyexc = Raised exc_class string

fun exc_cls :: "pyexc \<Rightarrow> exc_class" where
  "exc_cls (Raised c m) = c"

fun exc_str :: "pyexc \<Rightarrow> string" where
  "exc_str (Raised c m) = m"

text \<open>\<^verbatim>\<open>isinstance(e, Exception)\<close>: what an \<^verbatim>\<open>except Exception\<close> clause catches.\<close>

fun is_Exception :: "exc_class \<Rightarrow> bool" where
  "is_Exception KeyError = True"
| "is_Exception AttributeError = True"
| "is_Exception TypeError = True"
| "is_Exception ValueError = True"
| "is_Exception OverflowError = True"
| "is_Exception (UserException n) = True"
| "is_Exception KeyboardInterrupt = False"
| "is_Exception (SystemExit c) = False"
| "is_Exception GeneratorExit = False"
| "is_Exception (CancelledError by_sigint) = False"
| "is_Exception (UserBaseException n) = False"

section \<open>Decimal numerals\<close>

definition newline :: string where
  "newline = [CHR 0x0A]"

definition digit_char :: "nat \<Rightarrow> char" where
  "digit_char d = ''0123456789'' ! d"

fun str_nat :: "nat \<Rightarrow> string" where
  "str_nat n = (if n < 10 then [digit_char n] else str_nat (n div 10) @ [digit_char (n mod 10)])"

declare str_nat.simps [simp del]

text \<open>The decimal numeral of an int, with \<^verbatim>\<open>-\<close> in front of a negative one.\<close>

definition str_int :: "int \<Rightarrow> string" where
  "str_int i = (if i < 0 then CHR ''-'' # str_nat (nat (- i)) else str_nat (nat i))"

section \<open>Formatting a number with the format spec \<^verbatim>\<open>.1f\<close>\<close>

text \<open>\<open>round_half_even t d\<close> is \<open>t / d\<close> rounded to the nearest integer, ties to even.\<close>

definition round_half_even :: "nat \<Rightarrow> nat \<Rightarrow> nat" where
  "round_half_even t d =
     (let q = t div d; r = t mod d
      in if d < 2 * r \<or> (2 * r = d \<and> odd q) then q + 1 else q)"

text \<open>
  \<open>fixed1 m e\<close> renders \<open>m \<sqdot> 2\<^sup>e\<close> with one digit after the point, correctly rounded
  (ties to even) from the exact binary value, as \<^verbatim>\<open>float.__format__\<close> does.
\<close>

definition fixed1 :: "nat \<Rightarrow> int \<Rightarrow> string" where
  "fixed1 m e =
     (let q = (if 0 \<le> e then m * 2 ^ nat e * 10
               else round_half_even (m * 10) (2 ^ nat (- e)))
      in str_nat (q div 10) @ ''.'' @ str_nat (q mod 10))"

fun float_format_1f :: "pyfloat \<Rightarrow> string" where
  "float_format_1f (Finite s m e) = (if s then ''-'' else []) @ fixed1 m e"
| "float_format_1f (Infinity s) = (if s then ''-inf'' else ''inf'')"
| "float_format_1f NaN = ''nan''"

fun bit_length :: "nat \<Rightarrow> nat" where
  "bit_length n = (if n = 0 then 0 else Suc (bit_length (n div 2)))"

declare bit_length.simps [simp del]

text \<open>
  An int is converted to a float before it is formatted with \<^verbatim>\<open>f\<close>: the nearest double,
  ties to even, and \<^verbatim>\<open>OverflowError\<close> when that is \<open>2\<^sup>1\<^sup>0\<^sup>2\<^sup>4\<close> or more.
\<close>

definition int_to_float :: "int \<Rightarrow> pyexc + pyfloat" where
  "int_to_float i =
     (let a = nat \<bar>i\<bar>; n = bit_length a
      in if n \<le> 53 then Inr (Finite (i < 0) a 0)
         else let sh = n - 53; q = round_half_even a (2 ^ sh)
              in if 2 ^ 1024 \<le> q * 2 ^ sh
                 then Inl (Raised OverflowError ''int too large to convert to float'')
                 else Inr (Finite (i < 0) q (int sh)))"

text \<open>\<^verbatim>\<open>format(v, '.1f')\<close>, the conversion of a replacement field \<^verbatim>\<open>{v:.1f}\<close>.\<close>

fun format_1f :: "pyval \<Rightarrow> pyexc + string" where
  "format_1f PyNone =
     Inl (Raised TypeError ''unsupported format string passed to NoneType.__format__'')"
| "format_1f (PyBool b) =
     (case int_to_float (if b then 1 else 0) of
        Inl ex \<Rightarrow> Inl ex | Inr x \<Rightarrow> Inr (float_format_1f x))"
| "format_1f (PyInt i) =
     (case int_to_float i of Inl ex \<Rightarrow> Inl ex | Inr x \<Rightarrow> Inr (float_format_1f x))"
| "format_1f (PyFloat x) = Inr (float_format_1f x)"
| "format_1f (PyStr s) =
     Inl (Raised ValueError
       (''Unknown format code '' @ [CHR 0x27] @ ''f'' @ [CHR 0x27] @ '' for object of type ''
          @ [CHR 0x27] @ ''str'' @ [CHR 0x27]))"
| "format_1f (PyObj cls s) =
     Inl (Raised TypeError (''unsupported format string passed to '' @ cls @ ''.__format__''))"

section \<open>\<^verbatim>\<open>str()\<close> of a float\<close>

text \<open>
  A replacement field without a format spec renders a float as \<^verbatim>\<open>repr\<close> does: the
  shortest string of decimal digits that reads back as the same double (the nearest
  to the exact value when several have that length), in positional notation when the
  decimal point falls within \<open>-4 < decpt \<le> 16\<close> and in exponent notation otherwise.

  \<open>cmp_scaled c j x p\<close> is the sign of \<open>c \<sqdot> 10\<^sup>j - x \<sqdot> 2\<^sup>p\<close>.
\<close>

definition cmp_scaled :: "nat \<Rightarrow> int \<Rightarrow> nat \<Rightarrow> int \<Rightarrow> int" where
  "cmp_scaled c j x p =
     (let a = c * 10 ^ nat j * 2 ^ nat (- p);
          b = x * 2 ^ nat p * 10 ^ nat (- j)
      in if a < b then - 1 else if a = b then 0 else 1)"

text \<open>
  \<open>dec_exp m e\<close> is the \<open>k\<close> with \<open>10\<^sup>k \<le> m \<sqdot> 2\<^sup>e < 10\<^sup>k\<^sup>+\<^sup>1\<close>, for \<open>m > 0\<close>: one less than the
  number of digits of the integer part when that is not zero, and otherwise minus the
  number of digits of the integer part of the inverse (which is no power of ten).
\<close>

definition dec_exp :: "nat \<Rightarrow> int \<Rightarrow> int" where
  "dec_exp m e =
     (if 0 \<le> e then int (length (str_nat (m * 2 ^ nat e))) - 1
      else let d = 2 ^ nat (- e); q = m div d
           in if 1 \<le> q then int (length (str_nat q)) - 1
              else - int (length (str_nat (d div m))))"

text \<open>\<open>floor_scaled m e j\<close> is \<open>m \<sqdot> 2\<^sup>e / 10\<^sup>j\<close> rounded down.\<close>

definition floor_scaled :: "nat \<Rightarrow> int \<Rightarrow> int \<Rightarrow> nat" where
  "floor_scaled m e j =
     (m * 2 ^ nat e * 10 ^ nat (- j)) div (2 ^ nat (- e) * 10 ^ nat j)"

text \<open>
  \<open>reads_back c j m e low\<close>: the decimal \<open>c \<sqdot> 10\<^sup>j\<close> rounds to the double \<open>m \<sqdot> 2\<^sup>e\<close>. It
  lies within half a unit in the last place of it (a quarter below, when \<open>low\<close> says
  that the double is a power of two), the end points counting when \<open>m\<close> is even.
\<close>

definition reads_back :: "nat \<Rightarrow> int \<Rightarrow> nat \<Rightarrow> int \<Rightarrow> bool \<Rightarrow> bool" where
  "reads_back c j m e low =
     (let lo = 4 * m - (if low then 1 else 2); hi = 4 * m + 2;
          cl = cmp_scaled c j lo (e - 2); ch = cmp_scaled c j hi (e - 2)
      in (0 < cl \<or> (cl = 0 \<and> even m)) \<and> (ch < 0 \<or> (ch = 0 \<and> even m)))"

text \<open>The same value with the mantissa a double stores: 53 bits, or exponent \<open>-1074\<close>.\<close>

definition normalize_double :: "nat \<Rightarrow> int \<Rightarrow> nat \<times> int" where
  "normalize_double m e =
     (let sh = min (53 - bit_length m) (nat (e + 1074)) in (m * 2 ^ sh, e - int sh))"

definition strip_zeros :: "string \<Rightarrow> string" where
  "strip_zeros s = rev (dropWhile (\<lambda>c. c = CHR ''0'') (rev s))"

text \<open>
  The digits of the shortest decimal and the position of its decimal point: the lengths
  \<open>n = 1, 2, \<dots>, 17\<close> are tried in turn, with the two \<open>n\<close>-digit decimals next to the exact
  value as candidates (seventeen digits always read back).
\<close>

fun first_reading :: "nat \<Rightarrow> int \<Rightarrow> bool \<Rightarrow> int \<Rightarrow> nat list \<Rightarrow> string \<times> int" where
  "first_reading m e low k [] = (str_nat m, 0)"
| "first_reading m e low k (n # ns) =
     (let j = k - int n + 1; c1 = floor_scaled m e j; c2 = c1 + 1;
          i1 = reads_back c1 j m e low; i2 = reads_back c2 j m e low
      in if i1 \<or> i2 then
           (let d = cmp_scaled (c1 + c2) j (2 * m) e;
                c = (if i1 \<and> i2 then (if 0 < d \<or> (d = 0 \<and> even c1) then c1 else c2)
                     else if i1 then c1 else c2);
                s = str_nat c
            in (strip_zeros s, j + int (length s)))
         else first_reading m e low k ns)"

definition shortest_digits :: "nat \<Rightarrow> int \<Rightarrow> string \<times> int" where
  "shortest_digits m e =
     first_reading m e (m = 2 ^ 52 \<and> - 1074 < e) (dec_exp m e)
       [1, 2, 3, 4, 5, 6, 7, 8, 9, 10, 11, 12, 13, 14, 15, 16, 17]"

definition repr_digits :: "string \<Rightarrow> int \<Rightarrow> string" where
  "repr_digits ds decpt =
     (let nd = int (length ds)
      in if decpt \<le> - 4 \<or> 16 < decpt then
           (let ex = decpt - 1; es = str_nat (nat \<bar>ex\<bar>)
            in take 1 ds @ (if 1 < nd then ''.'' @ drop 1 ds else [])
               @ ''e'' @ (if ex < 0 then ''-'' else ''+'')
               @ (if length es < 2 then ''0'' @ es else es))
         else if decpt \<le> 0 then ''0.'' @ replicate (nat (- decpt)) (CHR ''0'') @ ds
         else if nd \<le> decpt then ds @ replicate (nat (decpt - nd)) (CHR ''0'') @ ''.0''
         else take (nat decpt) ds @ ''.'' @ drop (nat decpt) ds)"

fun float_repr :: "pyfloat \<Rightarrow> string" where
  "float_repr (Finite s m e) =
     (if s then ''-'' else []) @
     (if m = 0 then ''0.0''
      else case normalize_double m e of (m', e') \<Rightarrow>
           case shortest_digits m' e' of (ds, decpt) \<Rightarrow> repr_digits ds decpt)"
| "float_repr (Infinity s) = (if s then ''-inf'' else ''inf'')"
| "float_repr NaN = ''nan''"

text \<open>
  \<^verbatim>\<open>format(v, '')\<close>, the conversion of a replacement field \<^verbatim>\<open>{v}\<close>: the text \<^verbatim>\<open>str(v)\<close>.
  CPython 3.11 refuses to convert an int of more than 4300 decimal digits, that is, one
  of absolute value \<open>10\<^sup>4\<^sup>3\<^sup>0\<^sup>0\<close> or more, and raises \<^verbatim>\<open>ValueError\<close>: the limit is
  \<^verbatim>\<open>sys.int_info.default_max_str_digits\<close>, which the program leaves as it is. The
  conversion of the other values does not fail.
\<close>

definition max_str_digits :: nat where
  "max_str_digits = 4300"

fun py_str :: "pyval \<Rightarrow> pyexc + string" where
  "py_str PyNone = Inr ''None''"
| "py_str (PyBool b) = Inr (if b then ''True'' else ''False'')"
| "py_str (PyInt i) =
     (if \<bar>i\<bar> < 10 ^ max_str_digits then Inr (str_int i)
      else Inl (Raised ValueError
        ''Exceeds the limit (4300 digits) for integer string conversion; use sys.set_int_max_str_digits() to increase the limit''))"
| "py_str (PyFloat x) = Inr (float_repr x)"
| "py_str (PyStr s) = Inr s"
| "py_str (PyObj cls s) = Inr s"

section \<open>The projection result and its formatter\<close>

type_synonym pydict = "(string, pyval) fmap"

text \<open>
  \<^verbatim>\<open>result[k]\<close> raises \<^verbatim>\<open>KeyError(k)\<close> for a missing key; the text of that exception is
  \<^verbatim>\<open>repr(k)\<close>, the key between single quotes for the keys this program asks for.
\<close>

definition key_repr :: "string \<Rightarrow> string" where
  "key_repr k = [CHR 0x27] @ k @ [CHR 0x27]"

definition getitem :: "pydict \<Rightarrow> string \<Rightarrow> pyexc + pyval" where
  "getitem d k =
     (case fmlookup d k of
        None \<Rightarrow> Inl (Raised KeyError (key_repr k))
      | Some v \<Rightarrow> Inr v)"

text \<open>\<^verbatim>\<open>result.get(k, default)\<close>.\<close>

definition dict_get :: "pydict \<Rightarrow> string \<Rightarrow> pyval \<Rightarrow> pyval" where
  "dict_get d k dflt = (case fmlookup d k of None \<Rightarrow> dflt | Some v \<Rightarrow> v)"

text \<open>\<^verbatim>\<open>sep.join(xs)\<close>.\<close>

fun join :: "string \<Rightarrow> string list \<Rightarrow> string" where
  "join sep [] = []"
| "join sep [x] = x"
| "join sep (x # y # ys) = x @ sep @ join sep (y # ys)"

text \<open>The warning sign U+26A0 U+FE0F, a space, and the fixed message.\<close>

definition no_projection :: string where
  "no_projection =
     [CHR 0xE2, CHR 0x9A, CHR 0xA0, CHR 0xEF, CHR 0xB8, CHR 0x8F] @ '' No projection available''"

text \<open>
  \<^verbatim>\<open>format_result(result)\<close>. The argument is \<^verbatim>\<open>None\<close> or a dict; \<^verbatim>\<open>not result\<close> holds for
  \<^verbatim>\<open>None\<close> and for the empty dict. The six f-strings are evaluated in order, and in each
  of them every field is looked up and formatted before the next one is looked up, so
  the first failure is the one raised.
\<close>

definition format_result :: "pydict option \<Rightarrow> pyexc + string" where
  "format_result result =
     (case result of
        None \<Rightarrow> Inr no_projection
      | Some d \<Rightarrow>
          if d = fmempty then Inr no_projection
          else
            (case getitem d ''pitcher'' of Inl ex \<Rightarrow> Inl ex | Inr pitcher \<Rightarrow>
            (case py_str pitcher of Inl ex \<Rightarrow> Inl ex | Inr pitcher_text \<Rightarrow>
            (case getitem d ''opponent'' of Inl ex \<Rightarrow> Inl ex | Inr opponent \<Rightarrow>
            (case py_str opponent of Inl ex \<Rightarrow> Inl ex | Inr opponent_text \<Rightarrow>
            (case getitem d ''mean'' of Inl ex \<Rightarrow> Inl ex | Inr mean \<Rightarrow>
            (case format_1f mean of Inl ex \<Rightarrow> Inl ex | Inr mean_text \<Rightarrow>
            (case py_str (dict_get d ''vegas_line'' (PyStr ''N/A'')) of
               Inl ex \<Rightarrow> Inl ex | Inr line_text \<Rightarrow>
            (case py_str (dict_get d ''edge'' (PyStr ''N/A'')) of
               Inl ex \<Rightarrow> Inl ex | Inr edge_text \<Rightarrow>
            (case format_1f (dict_get d ''prob_over_6.5'' (PyInt 0)) of
               Inl ex \<Rightarrow> Inl ex | Inr prob_text \<Rightarrow>
            (case py_str (dict_get d ''lineup_source'' (PyStr ''Lineup source unknown'')) of
               Inl ex \<Rightarrow> Inl ex
             | Inr source_text \<Rightarrow>
                 Inr (join newline
                   [ newline @ ''=== '' @ pitcher_text @ '' vs '' @ opponent_text @ '' ==='',
                     ''Projected Ks: '' @ mean_text,
                     ''Vegas Line: '' @ line_text,
                     ''Edge: '' @ edge_text,
                     ''Over 6.5 Probability: '' @ prob_text @ ''%'',
                     ''Key Stats: '' @ source_text ]))))))))))))"

text \<open>The lines of a text: its pieces between newline characters.\<close>

fun lines_of :: "string \<Rightarrow> string list" where
  "lines_of [] = [[]]"
| "lines_of (c # cs) =
     (if c = CHR 0x0A then [] # lines_of cs
      else case lines_of cs of
             [] \<Rightarrow> [[c]]
           | l # ls \<Rightarrow> (c # l) # ls)"

text \<open>
  The scenario input \<^verbatim>\<open>{"pitcher": "Paul Skenes", "opponent": "PHI", "mean": 7.3}\<close>.
  The float literal \<^verbatim>\<open>7.3\<close> is the double \<open>8219069319951155 \<sqdot> 2\<^sup>-\<^sup>5\<^sup>0\<close>
  (\<^verbatim>\<open>0x1.d333333333333p+2\<close>).
\<close>

definition skenes :: pydict where
  "skenes = fmap_of_list
     [(''pitcher'', PyStr ''Paul Skenes''), (''opponent'', PyStr ''PHI''),
      (''mean'', PyFloat (Finite False 8219069319951155 (- 50)))]"

text \<open>
  The same result with a betting line and an edge:
  \<^verbatim>\<open>{"pitcher": "Paul Skenes", "opponent": "PHI", "mean": 7.3, "vegas_line": 6.5, "edge": 0.8}\<close>
  (\<^verbatim>\<open>6.5\<close> is \<open>13 \<sqdot> 2\<^sup>-\<^sup>1\<close>, \<^verbatim>\<open>0.8\<close> is the double \<open>3602879701896397 \<sqdot> 2\<^sup>-\<^sup>5\<^sup>2\<close>).
\<close>

definition skenes_line :: pydict where
  "skenes_line = fmap_of_list
     [(''pitcher'', PyStr ''Paul Skenes''), (''opponent'', PyStr ''PHI''),
      (''mean'', PyFloat (Finite False 8219069319951155 (- 50))),
      (''vegas_line'', PyFloat (Finite False 13 (- 1))),
      (''edge'', PyFloat (Finite False 3602879701896397 (- 52)))]"

text \<open>
  The numbers that the format spec \<^verbatim>\<open>.1f\<close> accepts: a float, a bool, and an int that
  rounds to a double below \<open>2\<^sup>1\<^sup>0\<^sup>2\<^sup>4\<close>.
\<close>

fun is_number :: "pyval \<Rightarrow> bool" where
  "is_number (PyFloat x) = True"
| "is_number (PyInt i) = (\<bar>i\<bar> < 2 ^ 1024 - 2 ^ 970)"
| "is_number (PyBool b) = True"
| "is_number PyNone = False"
| "is_number (PyStr s) = False"
| "is_number (PyObj cls s) = False"

text \<open>
  The values that a replacement field without format spec renders: all but the ints of
  more than 4300 digits.
\<close>

fun has_str :: "pyval \<Rightarrow> bool" where
  "has_str (PyInt i) = (\<bar>i\<bar> < 10 ^ max_str_digits)"
| "has_str PyNone = True"
| "has_str (PyBool b) = True"
| "has_str (PyFloat x) = True"
| "has_str (PyStr s) = True"
| "has_str (PyObj cls s) = True"

text \<open>
  \<open>present P d k\<close>: the value of the key \<open>k\<close> satisfies \<open>P\<close> if the dict \<open>d\<close> has the key.
\<close>

definition present :: "(pyval \<Rightarrow> bool) \<Rightarrow> pydict \<Rightarrow> string \<Rightarrow> bool" where
  "present P d k = (case fmlookup d k of None \<Rightarrow> True | Some v \<Rightarrow> P v)"

text \<open>
  The int \<^verbatim>\<open>10**4300\<close>, which has 4301 digits, and a result that lacks \<^verbatim>\<open>mean\<close> and has this
  int for its pitcher: \<^verbatim>\<open>{"pitcher": 10**4300, "opponent": "PHI"}\<close>.
\<close>

definition long_int :: int where
  "long_int = 10 ^ 4300"

definition long_pitcher :: pydict where
  "long_pitcher = fmap_of_list [(''pitcher'', PyInt long_int), (''opponent'', PyStr ''PHI'')]"

section \<open>The argument parser\<close>

text \<open>
  \<^verbatim>\<open>setup_parser\<close> describes the command line to \<^verbatim>\<open>argparse\<close>: a parser with a required
  sub-command stored under \<^verbatim>\<open>command\<close>, and one sub-command, \<^verbatim>\<open>predict\<close>, with the options
  \<^verbatim>\<open>--pitcher\<close> and \<^verbatim>\<open>--opponent\<close> (required), \<^verbatim>\<open>--park\<close> (default \<^verbatim>\<open>""\<close>) and \<^verbatim>\<open>--debug\<close>
  (\<^verbatim>\<open>store_true\<close>). The description is data; \<open>parse_args\<close> below interprets it the way
  \<^verbatim>\<open>ArgumentParser.parse_args\<close> does in the \<^verbatim>\<open>argparse.py\<close> of CPython 3.11.10 (that
  of 3.11.11 is the same file), for what this description uses: options that all start
  with two dashes, but for the \<^verbatim>\<open>-h\<close> and \<^verbatim>\<open>--help\<close> that \<^verbatim>\<open>argparse\<close> adds to every
  parser, no positional argument besides the sub-command, and the actions \<^verbatim>\<open>store\<close>,
  \<^verbatim>\<open>store_true\<close> and \<^verbatim>\<open>help\<close>.

  The releases of \<^verbatim>\<open>argparse\<close> do not agree on two corners of the command line: the text
  glued to a one-letter flag that takes no value (\<^verbatim>\<open>-hx\<close>, \<^verbatim>\<open>-h=x\<close>), where an earlier
  release may print the help when this one reports an error and the other way round, and
  the explicit value \<^verbatim>\<open>--\<close> (\<^verbatim>\<open>--pitcher=--\<close>), which this release stores as that string
  and an earlier one as an empty list. What is proved below of every command line is
  stated so that it does not depend on them.
\<close>

datatype arg_action = Store | StoreTrue | Help

record argument =
  option_strings :: "string list"
  dest :: string
  action :: arg_action
  required :: bool
  default_value :: pyval

record cli_parser =
  parser_arguments :: "argument list"
  subparsers_dest :: string
  subparsers_required :: bool
  subparsers :: "(string \<times> argument list) list"

text \<open>The \<^verbatim>\<open>-h\<close>/\<^verbatim>\<open>--help\<close> option of every parser (\<^verbatim>\<open>add_help=True\<close>); it stores nothing.\<close>

definition help_argument :: argument where
  "help_argument =
     \<lparr>option_strings = [''-h'', ''--help''], dest = ''help'', action = Help,
      required = False, default_value = PyNone\<rparr>"

text \<open>
  \<^verbatim>\<open>add_argument(flag, required=..., default=...)\<close> and
  \<^verbatim>\<open>add_argument(flag, action='store_true')\<close>; the destination is the flag without its
  two dashes.
\<close>

definition add_argument :: "string \<Rightarrow> bool \<Rightarrow> pyval \<Rightarrow> argument" where
  "add_argument flag req dflt =
     \<lparr>option_strings = [flag], dest = drop 2 flag, action = Store,
      required = req, default_value = dflt\<rparr>"

definition add_argument_store_true :: "string \<Rightarrow> argument" where
  "add_argument_store_true flag =
     \<lparr>option_strings = [flag], dest = drop 2 flag, action = StoreTrue,
      required = False, default_value = PyBool False\<rparr>"

definition predict_parser :: "argument list" where
  "predict_parser =
     [help_argument,
      add_argument ''--pitcher'' True PyNone,
      add_argument ''--opponent'' True PyNone,
      add_argument ''--park'' False (PyStr ''''),
      add_argument_store_true ''--debug'']"

definition setup_parser :: cli_parser where
  "setup_parser =
     \<lparr>parser_arguments = [help_argument],
      subparsers_dest = ''command'',
      subparsers_required = True,
      subparsers = [(''predict'', predict_parser)]\<rparr>"

subsection \<open>Recognising an option\<close>

text \<open>
  What one command-line argument is to a parser (\<^verbatim>\<open>_parse_optional\<close>): a positional
  argument, an option of the parser with the explicit value given after \<^verbatim>\<open>=\<close> or glued to
  a one-letter flag (and whether a \<^verbatim>\<open>=\<close> introduced it), an abbreviation that several
  options match, or something that looks like an option the parser does not have.
\<close>

datatype arg_class =
    Positional
  | Option string "(bool \<times> string) option"
  | Ambiguous "string list"
  | Unknown

text \<open>
  \<^verbatim>\<open>argparse\<close> takes an argument for a negative number when the pattern
  \<^verbatim>\<open>^-\d+$|^-\d*\.\d+$\<close> matches it (\<^verbatim>\<open>$\<close> also matches before a final newline). In a
  pattern for \<^verbatim>\<open>str\<close>, \<^verbatim>\<open>\d\<close> matches every decimal digit of Unicode, not only the ASCII
  ones: the characters of general category \<^verbatim>\<open>Nd\<close>, which in Unicode 14.0, the version of
  CPython 3.11, are 66 runs of ten code points. \<open>decimal_zeros\<close> lists the first code point
  of each run.
\<close>

definition decimal_zeros :: "nat list" where
  "decimal_zeros =
     [0x30, 0x660, 0x6F0, 0x7C0, 0x966, 0x9E6, 0xA66, 0xAE6,
      0xB66, 0xBE6, 0xC66, 0xCE6, 0xD66, 0xDE6, 0xE50, 0xED0,
      0xF20, 0x1040, 0x1090, 0x17E0, 0x1810, 0x1946, 0x19D0, 0x1A80,
      0x1A90, 0x1B50, 0x1BB0, 0x1C40, 0x1C50, 0xA620, 0xA8D0, 0xA900,
      0xA9D0, 0xA9F0, 0xAA50, 0xABF0, 0xFF10, 0x104A0, 0x10D30, 0x11066,
      0x110F0, 0x11136, 0x111D0, 0x112F0, 0x11450, 0x114D0, 0x11650, 0x116C0,
      0x11730, 0x118E0, 0x11950, 0x11C50, 0x11D50, 0x11DA0, 0x16A60, 0x16AC0,
      0x16B50, 0x1D7CE, 0x1D7D8, 0x1D7E2, 0x1D7EC, 0x1D7F6, 0x1E140, 0x1E2F0,
      0x1E950, 0x1FBF0]"

definition is_decimal :: "nat \<Rightarrow> bool" where
  "is_decimal c = list_ex (\<lambda>z. z \<le> c \<and> c < z + 10) decimal_zeros"

text \<open>
  An argument being its UTF-8 bytes, a character is the byte sequence that encodes it.
  \<open>code_point p\<close> is the code point that the bytes \<open>p\<close> encode, if they are the UTF-8
  encoding of one: the shortest encoding, of no surrogate, and of nothing above
  \<^verbatim>\<open>U+10FFFF\<close>. (A byte that is part of no such sequence reaches the program as a lone
  surrogate, which is no digit.)
\<close>

definition trail :: "nat \<Rightarrow> bool" where
  "trail b = (0x80 \<le> b \<and> b < 0xC0)"

definition code_point :: "string \<Rightarrow> nat option" where
  "code_point p =
     (case map of_char p of
        [a] \<Rightarrow> if a < 0x80 then Some a else None
      | [a, b] \<Rightarrow>
          if 0xC0 \<le> a \<and> a < 0xE0 \<and> trail b
          then (let c = (a - 0xC0) * 64 + (b - 0x80) in if 0x80 \<le> c then Some c else None)
          else None
      | [a, b, b'] \<Rightarrow>
          if 0xE0 \<le> a \<and> a < 0xF0 \<and> trail b \<and> trail b'
          then (let c = (a - 0xE0) * 4096 + (b - 0x80) * 64 + (b' - 0x80)
                in if 0x800 \<le> c \<and> \<not> (0xD800 \<le> c \<and> c < 0xE000) then Some c else None)
          else None
      | [a, b, b', b''] \<Rightarrow>
          if 0xF0 \<le> a \<and> a < 0xF8 \<and> trail b \<and> trail b' \<and> trail b''
          then (let c = (a - 0xF0) * 262144 + (b - 0x80) * 4096 + (b' - 0x80) * 64 + (b'' - 0x80)
                in if 0x10000 \<le> c \<and> c < 0x110000 then Some c else None)
          else None
      | _ \<Rightarrow> None)"

definition digit_bytes :: "string \<Rightarrow> bool" where
  "digit_bytes p = (case code_point p of None \<Rightarrow> False | Some c \<Rightarrow> is_decimal c)"

text \<open>
  \<open>all_digits [] s\<close>: the bytes \<open>s\<close> are decimal digits one after the other (none, for the
  empty text). \<open>pending\<close> holds the bytes read of the character at hand; no encoding of a
  character begins another one, so the first bytes that make up a digit are that digit.
\<close>

fun all_digits :: "string \<Rightarrow> string \<Rightarrow> bool" where
  "all_digits pending [] = (pending = [])"
| "all_digits pending (b # bs) =
     (if digit_bytes (pending @ [b]) then all_digits [] bs else all_digits (pending @ [b]) bs)"

text \<open>
  The two alternatives of the pattern: after the dash, one digit or more; or any number
  of digits, a point, and one digit or more. A point is no part of a digit, so the
  first point of the text is the one the pattern asks for.
\<close>

definition negative_number_like :: "string \<Rightarrow> bool" where
  "negative_number_like t =
     (case (if t \<noteq> [] \<and> last t = CHR 0x0A then butlast t else t) of
        [] \<Rightarrow> False
      | c # r \<Rightarrow>
          c = CHR ''-'' \<and>
          ((r \<noteq> [] \<and> all_digits [] r) \<or>
           (CHR ''.'' \<in> set r
            \<and> all_digits [] (takeWhile (\<lambda>c. c \<noteq> CHR ''.'') r)
            \<and> drop 1 (dropWhile (\<lambda>c. c \<noteq> CHR ''.'') r) \<noteq> []
            \<and> all_digits [] (drop 1 (dropWhile (\<lambda>c. c \<noteq> CHR ''.'') r)))))"

text \<open>\<^verbatim>\<open>t.partition('=')\<close>: the text before the first \<^verbatim>\<open>=\<close>, whether there is one, the text after it.\<close>

definition partition_eq :: "string \<Rightarrow> string \<times> bool \<times> string" where
  "partition_eq t =
     (takeWhile (\<lambda>c. c \<noteq> CHR ''='') t, CHR ''='' \<in> set t,
      drop 1 (dropWhile (\<lambda>c. c \<noteq> CHR ''='') t))"

definition parse_optional :: "string list \<Rightarrow> string \<Rightarrow> arg_class" where
  "parse_optional options t =
     (if t = [] then Positional
      else if hd t \<noteq> CHR ''-'' then Positional
      else if t \<in> set options then Option t None
      else if length t = 1 then Positional
      else case partition_eq t of (stem, has_eq, arg) \<Rightarrow>
        if has_eq \<and> stem \<in> set options then Option stem (Some (True, arg))
        else
          let explicit = (if has_eq then Some (True, arg) else None);
              matches =
                (if t ! 1 = CHR ''-'' then
                   map (\<lambda>opt. (opt, explicit)) (filter (\<lambda>opt. prefix stem opt) options)
                 else
                   map (\<lambda>opt. (opt, if opt = take 2 t then Some (False, drop 2 t) else None))
                     (filter (\<lambda>opt. opt = take 2 t \<or> prefix t opt) options))
          in case matches of
               [m] \<Rightarrow> Option (fst m) (snd m)
             | _ # _ # _ \<Rightarrow> Ambiguous (map fst matches)
             | [] \<Rightarrow>
                 if negative_number_like t then Positional
                 else if CHR '' '' \<in> set t then Positional
                 else Unknown)"

fun is_positional :: "arg_class \<Rightarrow> bool" where
  "is_positional Positional = True"
| "is_positional (Option opt explicit) = False"
| "is_positional (Ambiguous opts) = False"
| "is_positional Unknown = False"

fun is_ambiguous :: "arg_class \<Rightarrow> bool" where
  "is_ambiguous (Ambiguous opts) = True"
| "is_ambiguous Positional = False"
| "is_ambiguous (Option opt explicit) = False"
| "is_ambiguous Unknown = False"

fun is_option :: "string \<Rightarrow> arg_class \<Rightarrow> bool" where
  "is_option opt (Option opt' explicit) = (opt' = opt)"
| "is_option opt Positional = False"
| "is_option opt (Ambiguous opts) = False"
| "is_option opt Unknown = False"

subsection \<open>Parsing\<close>

text \<open>
  \<^verbatim>\<open>parse_args\<close> returns the namespace, or leaves the process through \<^verbatim>\<open>parser.exit()\<close>
  after printing the help (status 0), or through \<^verbatim>\<open>parser.error(message)\<close> (status 2).
\<close>

datatype usage_error =
    MissingRequired "string list"
  | UnrecognizedArguments "string list"
  | InvalidChoice string
  | ExpectedOneArgument string
  | IgnoredExplicitArgument string
  | AmbiguousOption string

datatype 'a parsed = Parsed 'a | HelpExit | UsageError usage_error

text \<open>
  A one-letter flag that takes no value may be followed by more one-letter flags in the
  same argument. \<open>short_flags eq rest\<close> follows \<^verbatim>\<open>-h\<close> through the text glued to it: it is
  true when the help action runs, false when the text is an explicit value that a flag
  without value cannot take.
\<close>

fun short_flags :: "bool \<Rightarrow> string \<Rightarrow> bool" where
  "short_flags eq [] = False"
| "short_flags eq (c # cs) =
     (if eq \<or> c = CHR ''-'' then False
      else if c \<noteq> CHR ''h'' then True
      else case cs of
             [] \<Rightarrow> True
           | d # ds \<Rightarrow> if d = CHR ''='' then short_flags True ds else short_flags False cs)"

definition help_requested :: "string \<Rightarrow> (bool \<times> string) option \<Rightarrow> bool" where
  "help_requested opt explicit =
     (case explicit of
        None \<Rightarrow> True
      | Some (eq, rest) \<Rightarrow> opt = ''-h'' \<and> short_flags eq rest)"

definition all_option_strings :: "argument list \<Rightarrow> string list" where
  "all_option_strings args = concat (map option_strings args)"

definition find_argument :: "argument list \<Rightarrow> string \<Rightarrow> argument option" where
  "find_argument args opt = find (\<lambda>a. opt \<in> set (option_strings a)) args"

text \<open>The namespace a parser starts from: every destination with its default.\<close>

definition defaults :: "argument list \<Rightarrow> pydict" where
  "defaults args =
     fold (\<lambda>a ns. if action a = Help then ns else fmupd (dest a) (default_value a) ns)
       args fmempty"

text \<open>
  The state of a sub-command's parse is the namespace, the destinations seen, and the
  arguments left over, which the caller reports.

  \<open>consume_optional args state t ts\<close> handles one argument \<open>t\<close> that is followed by \<open>ts\<close>:
  a positional argument or an unknown option is left over (the sub-command takes no
  positional argument); an option runs its action. \<^verbatim>\<open>store\<close> takes its value from the
  explicit \<^verbatim>\<open>=value\<close>, or else from the next argument, which must be a positional one. The
  result is the new state and the number of following arguments taken.
\<close>

type_synonym parse_state = "pydict \<times> string list \<times> string list"

definition consume_optional ::
  "argument list \<Rightarrow> parse_state \<Rightarrow> string \<Rightarrow> string list \<Rightarrow> (parse_state \<times> nat) parsed" where
  "consume_optional args state t ts =
     (case state of (ns, seen, extras) \<Rightarrow>
      case parse_optional (all_option_strings args) t of
        Positional \<Rightarrow> Parsed ((ns, seen, extras @ [t]), 0)
      | Unknown \<Rightarrow> Parsed ((ns, seen, extras @ [t]), 0)
      | Ambiguous opts \<Rightarrow> UsageError (AmbiguousOption t)
      | Option opt explicit \<Rightarrow>
          (case find_argument args opt of
             None \<Rightarrow> Parsed ((ns, seen, extras @ [t]), 0)
           | Some a \<Rightarrow>
               (case action a of
                  Help \<Rightarrow>
                    if help_requested opt explicit then HelpExit
                    else UsageError (IgnoredExplicitArgument t)
                | StoreTrue \<Rightarrow>
                    (case explicit of
                       None \<Rightarrow> Parsed ((fmupd (dest a) (PyBool True) ns, dest a # seen, extras), 0)
                     | Some e \<Rightarrow> UsageError (IgnoredExplicitArgument t))
                | Store \<Rightarrow>
                    (case explicit of
                       Some e \<Rightarrow>
                         Parsed ((fmupd (dest a) (PyStr (snd e)) ns, dest a # seen, extras), 0)
                     | None \<Rightarrow>
                         (case ts of
                            [] \<Rightarrow> UsageError (ExpectedOneArgument opt)
                          | v # ts' \<Rightarrow>
                              if v \<noteq> ''--''
                                 \<and> is_positional (parse_optional (all_option_strings args) v)
                              then Parsed ((fmupd (dest a) (PyStr v) ns, dest a # seen, extras), 1)
                              else UsageError (ExpectedOneArgument opt))))))"

text \<open>
  The arguments of a sub-command from left to right; \<^verbatim>\<open>--\<close> ends the options, and it and
  all that follows is left over.
\<close>

fun consume_optionals ::
  "argument list \<Rightarrow> parse_state \<Rightarrow> string list \<Rightarrow> parse_state parsed" where
  "consume_optionals args state [] = Parsed state"
| "consume_optionals args state (t # ts) =
     (if t = ''--'' then
        (case state of (ns, seen, extras) \<Rightarrow> Parsed (ns, seen, extras @ t # ts))
      else case consume_optional args state t ts of
             HelpExit \<Rightarrow> HelpExit
           | UsageError e \<Rightarrow> UsageError e
           | Parsed (state', taken) \<Rightarrow> consume_optionals args state' (drop taken ts))"

text \<open>
  A sub-command's \<^verbatim>\<open>parse_known_args\<close>: every argument before \<^verbatim>\<open>--\<close> is classified first,
  where an ambiguous abbreviation is an error at once; then the options are consumed;
  then the required options that were not seen are reported.
\<close>

definition parse_subcommand :: "argument list \<Rightarrow> string list \<Rightarrow> (pydict \<times> string list) parsed" where
  "parse_subcommand args ts =
     (case find (\<lambda>t. is_ambiguous (parse_optional (all_option_strings args) t))
             (takeWhile (\<lambda>t. t \<noteq> ''--'') ts) of
        Some t \<Rightarrow> UsageError (AmbiguousOption t)
      | None \<Rightarrow>
          (case consume_optionals args (defaults args, [], []) ts of
             HelpExit \<Rightarrow> HelpExit
           | UsageError e \<Rightarrow> UsageError e
           | Parsed (ns, seen, extras) \<Rightarrow>
               (let missing =
                      map (\<lambda>a. join ''/'' (option_strings a))
                        (filter (\<lambda>a. required a \<and> dest a \<notin> set seen) args)
                in if missing \<noteq> [] then UsageError (MissingRequired missing)
                   else Parsed (ns, extras))))"

text \<open>
  The top-level parser: its own options (the help) up to the first positional argument,
  which is the sub-command and takes all that follows. \<open>extras\<close> are the unknown options
  met before the sub-command; any argument left over, here or in the sub-command, is an
  error once the sub-command has been parsed.
\<close>

fun parse_command :: "cli_parser \<Rightarrow> string list \<Rightarrow> string list \<Rightarrow> pydict parsed" where
  "parse_command p extras [] =
     (if subparsers_required p then UsageError (MissingRequired [subparsers_dest p])
      else if extras \<noteq> [] then UsageError (UnrecognizedArguments extras)
      else Parsed (fmupd (subparsers_dest p) PyNone fmempty))"
| "parse_command p extras (t # ts) =
     (if t = ''--'' then
        (if ts = [] then parse_command p (extras @ [t]) [] else UsageError (InvalidChoice t))
      else case parse_optional (all_option_strings (parser_arguments p)) t of
        Positional \<Rightarrow>
          (case map_of (subparsers p) t of
             None \<Rightarrow> UsageError (InvalidChoice t)
           | Some args \<Rightarrow>
               (case parse_subcommand args ts of
                  HelpExit \<Rightarrow> HelpExit
                | UsageError e \<Rightarrow> UsageError e
                | Parsed (ns, sub_extras) \<Rightarrow>
                    if extras @ sub_extras \<noteq> []
                    then UsageError (UnrecognizedArguments (extras @ sub_extras))
                    else Parsed (fmupd (subparsers_dest p) (PyStr t) ns)))
      | Unknown \<Rightarrow> parse_command p (extras @ [t]) ts
      | Ambiguous opts \<Rightarrow> UsageError (AmbiguousOption t)
      | Option opt explicit \<Rightarrow>
          if help_requested opt explicit then HelpExit
          else UsageError (IgnoredExplicitArgument t))"

definition parse_args :: "cli_parser \<Rightarrow> string list \<Rightarrow> pydict parsed" where
  "parse_args p argv = parse_command p [] argv"

section \<open>The command-line program\<close>

text \<open>
  What the program does besides computing is recorded as the sequence of its actions on
  the outside world, in the order they happen.
\<close>

datatype loglevel = DEBUG | INFO | WARNING | ERROR | CRITICAL

datatype event =
    ParserHelp
  | ParserError usage_error
  | BasicConfig loglevel
  | EngineCall pyval pyval pyval
  | Log loglevel string
  | Print string
  | Traceback pyexc

text \<open>
  \<open>ParserHelp\<close>: \<^verbatim>\<open>argparse\<close> prints the help on standard output; \<open>ParserError\<close>: it prints
  the usage and the error on standard error; \<open>BasicConfig l\<close>:
  \<^verbatim>\<open>logging.basicConfig(level=l, format='%(levelname)s: %(message)s')\<close>; \<open>EngineCall\<close>:
  \<^verbatim>\<open>auto_project_strikeouts(pitcher, opponent, park)\<close> is called and awaited; \<open>Log l m\<close>: the
  message \<open>m\<close> is handed to the root logger at level \<open>l\<close>; \<open>Print t\<close>: \<^verbatim>\<open>print(t)\<close>;
  \<open>Traceback e\<close>: the interpreter reports the exception \<open>e\<close> that nothing caught.
  Writing is taken to succeed: standard output and standard error are open and encode
  in UTF-8, as CPython 3.11 has them on Linux in a UTF-8 or a \<^verbatim>\<open>C\<close> locale.

  A call returns a value, raises an exception, or never completes.
\<close>

datatype 'a outcome = Returns 'a | Raises pyexc | Never

text \<open>
  The projection engine \<^verbatim>\<open>k_model.auto_project_strikeouts\<close> is not part of the front end:
  it is a parameter, given by what awaiting it on three arguments comes to.
\<close>

type_synonym engine = "pyval \<Rightarrow> pyval \<Rightarrow> pyval \<Rightarrow> pydict option outcome"

text \<open>
  \<^verbatim>\<open>run_prediction\<close>: the awaited call inside \<^verbatim>\<open>try\<close>, with \<^verbatim>\<open>except Exception\<close> logging
  \<^verbatim>\<open>f"Prediction failed: {str(e)}"\<close> as an error and returning \<^verbatim>\<open>None\<close>.
\<close>

definition run_prediction ::
  "engine \<Rightarrow> pyval \<Rightarrow> pyval \<Rightarrow> pyval \<Rightarrow> event list \<times> pydict option outcome" where
  "run_prediction engine pitcher opponent park =
     (case engine pitcher opponent park of
        Returns result \<Rightarrow> ([EngineCall pitcher opponent park], Returns result)
      | Raises e \<Rightarrow>
          if is_Exception (exc_cls e)
          then ([EngineCall pitcher opponent park,
                 Log ERROR (''Prediction failed: '' @ exc_str e)], Returns None)
          else ([EngineCall pitcher opponent park], Raises e)
      | Never \<Rightarrow> ([EngineCall pitcher opponent park], Never))"

text \<open>Reading an attribute of the namespace, \<^verbatim>\<open>args.name\<close>.\<close>

definition getattr :: "pydict \<Rightarrow> string \<Rightarrow> pyexc + pyval" where
  "getattr ns name =
     (case fmlookup ns name of
        None \<Rightarrow>
          Inl (Raised AttributeError
            ([CHR 0x27] @ ''Namespace'' @ [CHR 0x27] @ '' object has no attribute ''
               @ [CHR 0x27] @ name @ [CHR 0x27]))
      | Some v \<Rightarrow> Inr v)"

text \<open>
  The truth value of \<^verbatim>\<open>args.debug\<close> in \<^verbatim>\<open>if args.debug\<close>. A namespace of this parser holds
  strings, bools and \<^verbatim>\<open>None\<close>; any other object counts as true, as an object does that
  defines neither \<^verbatim>\<open>__bool__\<close> nor \<^verbatim>\<open>__len__\<close>.
\<close>

fun truthy :: "pyval \<Rightarrow> bool" where
  "truthy PyNone = False"
| "truthy (PyBool b) = b"
| "truthy (PyInt i) = (i \<noteq> 0)"
| "truthy (PyFloat (Finite s m e)) = (m \<noteq> 0)"
| "truthy (PyFloat (Infinity s)) = True"
| "truthy (PyFloat NaN) = True"
| "truthy (PyStr s) = (s \<noteq> [])"
| "truthy (PyObj cls s) = True"

text \<open>
  \<^verbatim>\<open>main\<close>: parse the command line (\<^verbatim>\<open>argparse\<close> leaves through \<^verbatim>\<open>SystemExit\<close> with status
  0 after the help and 2 after an error), configure logging, and for the command
  \<^verbatim>\<open>predict\<close> await \<^verbatim>\<open>run_prediction\<close> and print the formatted result.
\<close>

definition main :: "engine \<Rightarrow> string list \<Rightarrow> event list \<times> unit outcome" where
  "main engine argv =
     (case parse_args setup_parser argv of
        HelpExit \<Rightarrow> ([ParserHelp], Raises (Raised (SystemExit 0) ''0''))
      | UsageError err \<Rightarrow> ([ParserError err], Raises (Raised (SystemExit 2) ''2''))
      | Parsed args \<Rightarrow>
          case getattr args ''debug'' of Inl ex \<Rightarrow> ([], Raises ex) | Inr debug \<Rightarrow>
          let configured = [BasicConfig (if truthy debug then DEBUG else INFO)] in
          case getattr args ''command'' of Inl ex \<Rightarrow> (configured, Raises ex) | Inr command \<Rightarrow>
          if command = PyStr ''predict'' then
            case getattr args ''pitcher'' of Inl ex \<Rightarrow> (configured, Raises ex) | Inr pitcher \<Rightarrow>
            case getattr args ''opponent'' of Inl ex \<Rightarrow> (configured, Raises ex) | Inr opponent \<Rightarrow>
            case getattr args ''park'' of Inl ex \<Rightarrow> (configured, Raises ex) | Inr park \<Rightarrow>
            case run_prediction engine pitcher opponent park of
              (called, Raises ex) \<Rightarrow> (configured @ called, Raises ex)
            | (called, Never) \<Rightarrow> (configured @ called, Never)
            | (called, Returns result) \<Rightarrow>
                (case format_result result of
                   Inl ex \<Rightarrow> (configured @ called, Raises ex)
                 | Inr text \<Rightarrow> (configured @ called @ [Print text], Returns ()))
          else (configured, Returns ()))"

text \<open>
  \<^verbatim>\<open>asyncio.run(main())\<close> runs \<^verbatim>\<open>main\<close> as the main task of a new event loop and returns
  what it returns or raises what it raises, with one exception (\<^verbatim>\<open>Runner.run\<close> in
  \<^verbatim>\<open>asyncio/runners.py\<close> of CPython 3.11): it installs a \<^verbatim>\<open>SIGINT\<close> handler that answers
  the first Ctrl-C by cancelling the main task, and when the task then ends cancelled,
  with no other cancellation requested of it, \<^verbatim>\<open>asyncio.run\<close> raises
  \<^verbatim>\<open>KeyboardInterrupt()\<close> in place of the \<^verbatim>\<open>CancelledError\<close>. Any other \<^verbatim>\<open>CancelledError\<close> is
  raised as it is. The Ctrl-C is considered where it matters to \<^verbatim>\<open>cli.py\<close>: while the
  engine is awaited.
\<close>

definition asyncio_run :: "event list \<times> unit outcome \<Rightarrow> event list \<times> unit outcome" where
  "asyncio_run run =
     (case run of
        (acts, Raises ex) \<Rightarrow>
          if exc_cls ex = CancelledError True then (acts, Raises (Raised KeyboardInterrupt []))
          else (acts, Raises ex)
      | (acts, Returns u) \<Rightarrow> (acts, Returns u)
      | (acts, Never) \<Rightarrow> (acts, Never))"

text \<open>
  The exit status that the interpreter gives the process for \<^verbatim>\<open>SystemExit(code)\<close>: the code
  is converted to a C \<^verbatim>\<open>long\<close> (\<open>-1\<close> when it does not fit in its 64 bits) and the operating
  system keeps the lowest eight bits, as on Linux.
\<close>

definition process_status :: "int \<Rightarrow> nat" where
  "process_status code =
     nat ((if - (2 ^ 63) \<le> code \<and> code < 2 ^ 63 then code else - 1) mod 256)"

text \<open>
  The script body, around \<^verbatim>\<open>asyncio.run(main())\<close>: \<^verbatim>\<open>KeyboardInterrupt\<close> is answered by a
  notice, after which the script ends (status 0); any \<^verbatim>\<open>Exception\<close> is logged as
  \<^verbatim>\<open>Fatal error\<close> and followed by \<^verbatim>\<open>exit(1)\<close>. What neither clause catches reaches the
  interpreter: \<^verbatim>\<open>SystemExit\<close> ends the process with the status of its code, anything else
  is reported with a traceback and status 1. The result is the actions and the exit
  status of the process, \<open>None\<close> when it never ends.
\<close>

definition script :: "engine \<Rightarrow> string list \<Rightarrow> event list \<times> nat option" where
  "script engine argv =
     (case asyncio_run (main engine argv) of
        (acts, Returns u) \<Rightarrow> (acts, Some 0)
      | (acts, Never) \<Rightarrow> (acts, None)
      | (acts, Raises ex) \<Rightarrow>
          if exc_cls ex = KeyboardInterrupt
          then (acts @ [Print (newline @ ''Operation cancelled by user'')], Some 0)
          else if is_Exception (exc_cls ex)
          then (acts @ [Log ERROR (''Fatal error: '' @ exc_str ex)], Some 1)
          else (case exc_cls ex of
                  SystemExit code \<Rightarrow> (acts, Some (process_status code))
                | _ \<Rightarrow> (acts @ [Traceback ex], Some 1)))"

subsection \<open>What the root logger writes\<close>

fun level_no :: "loglevel \<Rightarrow> nat" where
  "level_no DEBUG = 10"
| "level_no INFO = 20"
| "level_no WARNING = 30"
| "level_no ERROR = 40"
| "level_no CRITICAL = 50"

fun level_name :: "loglevel \<Rightarrow> string" where
  "level_name DEBUG = ''DEBUG''"
| "level_name INFO = ''INFO''"
| "level_name WARNING = ''WARNING''"
| "level_name ERROR = ''ERROR''"
| "level_name CRITICAL = ''CRITICAL''"

text \<open>
  The root logger of a fresh process has no handler. \<^verbatim>\<open>basicConfig\<close> gives it one with the
  level and the format \<^verbatim>\<open>LEVEL: message\<close>, unless it has one already; a message logged
  before that installs the default handler (level \<^verbatim>\<open>WARNING\<close>, format
  \<^verbatim>\<open>LEVEL:root:message\<close>). A record is written when its level is not below the logger's.
\<close>

datatype root_logger = Unconfigured | Configured loglevel | DefaultHandler

fun written :: "root_logger \<Rightarrow> event list \<Rightarrow> string list" where
  "written root [] = []"
| "written root (BasicConfig l # es) =
     written (if root = Unconfigured then Configured l else root) es"
| "written root (Log l msg # es) =
     (case root of
        Configured c \<Rightarrow>
          (if level_no c \<le> level_no l then [level_name l @ '': '' @ msg] else [])
            @ written root es
      | _ \<Rightarrow>
          (if level_no WARNING \<le> level_no l then [level_name l @ '':root:'' @ msg] else [])
            @ written DefaultHandler es)"
| "written root (ParserHelp # es) = written root es"
| "written root (ParserError err # es) = written root es"
| "written root (EngineCall a b c # es) = written root es"
| "written root (Print t # es) = written root es"
| "written root (Traceback ex # es) = written root es"

definition log_output :: "event list \<Rightarrow> string list" where
  "log_output es = written Unconfigured es"

subsection \<open>Which arguments name an option\<close>

text \<open>
  \<open>gives opt argv\<close>: some argument of the command line, before any \<^verbatim>\<open>--\<close>, is the option
  \<open>opt\<close> of the \<^verbatim>\<open>predict\<close> parser: the option string itself, an unambiguous abbreviation
  of it, or either with \<^verbatim>\<open>=value\<close> attached.
\<close>

definition gives :: "string \<Rightarrow> string list \<Rightarrow> bool" where
  "gives opt argv =
     list_ex (\<lambda>t. is_option opt (parse_optional (all_option_strings predict_parser) t))
       (takeWhile (\<lambda>t. t \<noteq> ''--'') argv)"

text \<open>
  \<open>help_token t\<close>: the argument starts with \<^verbatim>\<open>-h\<close>, or starts with two dashes and is, up to
  a \<^verbatim>\<open>=\<close>, the beginning of \<^verbatim>\<open>--help\<close>.
\<close>

definition help_token :: "string \<Rightarrow> bool" where
  "help_token t =
     (prefix ''-h'' t \<or> (prefix ''--'' t \<and> prefix (fst (partition_eq t)) ''--help''))"

section \<open>Sample command lines and engines\<close>

text \<open>The command line \<^verbatim>\<open>predict --pitcher "Paul Skenes" --opponent PHI\<close>.\<close>

definition skenes_argv :: "string list" where
  "skenes_argv = [''predict'', ''--pitcher'', ''Paul Skenes'', ''--opponent'', ''PHI'']"

text \<open>
  Engines: one that returns the scenario result, one that returns \<^verbatim>\<open>None\<close>, one that fails
  with an exception whose message is \<^verbatim>\<open>network timeout\<close>, one that ends with
  \<^verbatim>\<open>KeyboardInterrupt\<close>, one that is waiting when the user presses Ctrl-C and passes on the
  cancellation that \<^verbatim>\<open>asyncio.run\<close> then requests, and one that raises
  \<^verbatim>\<open>asyncio.CancelledError\<close> of its own.
\<close>

definition skenes_engine :: engine where
  "skenes_engine pitcher opponent park = Returns (Some skenes)"

definition null_engine :: engine where
  "null_engine pitcher opponent park = Returns None"

definition timeout_engine :: engine where
  "timeout_engine pitcher opponent park = Raises (Raised (UserException ''TimeoutError'') ''network timeout'')"

definition interrupted_engine :: engine where
  "interrupted_engine pitcher opponent park = Raises (Raised KeyboardInterrupt [])"

definition ctrl_c_engine :: engine where
  "ctrl_c_engine pitcher opponent park = Raises (Raised (CancelledError True) [])"

definition cancelled_engine :: engine where
  "cancelled_engine pitcher opponent park = Raises (Raised (CancelledError False) [])"

text \<open>An engine whose result lacks the required keys: \<^verbatim>\<open>{"opponent": "PHI"}\<close>.\<close>

definition malformed_engine :: engine where
  "malformed_engine pitcher opponent park = Returns (Some (fmap_of_list [(''opponent'', PyStr ''PHI'')]))"

text \<open>
  The values are of the expected classes: a string for \<^verbatim>\<open>park\<close>, a bool for \<^verbatim>\<open>debug\<close>, and a
  string for \<^verbatim>\<open>pitcher\<close> and \<^verbatim>\<open>opponent\<close> once they have been seen.
\<close>

definition well_typed :: "pydict \<Rightarrow> string list \<Rightarrow> bool" where
  "well_typed ns seen \<longleftrightarrow>
     (\<exists>k. fmlookup ns ''park'' = Some (PyStr k))
     \<and> (\<exists>b. fmlookup ns ''debug'' = Some (PyBool b))
     \<and> (''pitcher'' \<in> set seen \<longrightarrow> (\<exists>p. fmlookup ns ''pitcher'' = Some (PyStr p)))
     \<and> (''opponent'' \<in> set seen \<longrightarrow> (\<exists>p. fmlookup ns ''opponent'' = Some (PyStr p)))"

text \<open>
  An argument that carries the explicit value \<^verbatim>\<open>--\<close>, as \<^verbatim>\<open>--pitcher=--\<close> does: what is
  stored for it depends on the release of \<^verbatim>\<open>argparse\<close>.
\<close>

definition explicit_dashes :: "string \<Rightarrow> bool" where
  "explicit_dashes t = (case partition_eq t of (stem, has_eq, arg) \<Rightarrow> has_eq \<and> arg = ''--'')"

text \<open>The command line \<^verbatim>\<open>predict --pitcher -<U+0663> --opponent PHI\<close>, whose pitcher is a dash and
  the Arabic-Indic digit three.\<close>

definition arabic_argv :: "string list" where
  "arabic_argv =
     [''predict'', ''--pitcher'', [CHR ''-'', CHR 0xD9, CHR 0xA3], ''--opponent'', ''PHI'']"

section \<open>Properties of the formatter\<close>

lemma lookup_nonempty: "fmlookup d k = Some v \<Longrightarrow> d \<noteq> fmempty"
  by auto

lemma int_to_float_0: "int_to_float 0 = Inr (Finite False 0 0)"
  by (simp add: int_to_float_def bit_length.simps)

lemma fixed1_zero: "fixed1 0 0 = ''0.0''"
  by (simp add: fixed1_def str_nat.simps digit_char_def)

text \<open>
  C3: \<^verbatim>\<open>format_result(None)\<close> returns exactly the fixed warning string, the warning
  sign followed by \<^verbatim>\<open>" No projection available"\<close>.
\<close>

theorem format_result_None:
  "format_result None =
     Inr ([CHR 0xE2, CHR 0x9A, CHR 0xA0, CHR 0xEF, CHR 0xB8, CHR 0x8F] @ '' No projection available'')"
  by (simp add: format_result_def no_projection_def)

text \<open>
  C8: an empty dict is falsy as well, so \<^verbatim>\<open>format_result({})\<close> returns the same warning
  string as \<^verbatim>\<open>format_result(None)\<close> and no field is looked up.
\<close>

theorem format_result_empty:
  "format_result (Some fmempty) =
     Inr ([CHR 0xE2, CHR 0x9A, CHR 0xA0, CHR 0xEF, CHR 0xB8, CHR 0x8F] @ '' No projection available'')
   \<and> format_result (Some fmempty) = format_result None"
  by (simp add: format_result_def no_projection_def)

text \<open>The decimal \<open>7.3\<close> reads back as the double used for the scenario's mean.\<close>

lemma skenes_mean_is_7_3: "reads_back 73 (- 1) 8219069319951155 (- 50) False"
  by (simp add: reads_back_def cmp_scaled_def)

lemma skenes_nonempty: "skenes \<noteq> fmempty"
  by (rule lookup_nonempty [of _ "''pitcher''" "PyStr ''Paul Skenes''"]) (simp add: skenes_def)

lemma fixed1_skenes_mean: "fixed1 8219069319951155 (- 50) = ''7.3''"
  by (simp add: fixed1_def round_half_even_def str_nat.simps digit_char_def Let_def)

lemma format_result_skenes_text:
  "format_result (Some skenes) =
     Inr ''\<newline>=== Paul Skenes vs PHI ===\<newline>Projected Ks: 7.3\<newline>Vegas Line: N/A\<newline>Edge: N/A\<newline>Over 6.5 Probability: 0.0%\<newline>Key Stats: Lineup source unknown''"
proof -
  have "format_result (Some skenes) = Inr (join newline
         [newline @ ''=== Paul Skenes vs PHI ==='', ''Projected Ks: 7.3'', ''Vegas Line: N/A'',
          ''Edge: N/A'', ''Over 6.5 Probability: 0.0%'', ''Key Stats: Lineup source unknown''])"
    using skenes_nonempty
    by (simp add: format_result_def getitem_def dict_get_def fixed1_skenes_mean int_to_float_0
        fixed1_zero skenes_def)
  then show ?thesis by (simp add: newline_def)
qed

text \<open>
  C4: for the scenario input with no optional key, \<^verbatim>\<open>format_result\<close> returns the block
  whose lines are an empty line (the leading newline), \<^verbatim>\<open>=== Paul Skenes vs PHI ===\<close>,
  \<^verbatim>\<open>Projected Ks: 7.3\<close>, \<^verbatim>\<open>Vegas Line: N/A\<close>, \<^verbatim>\<open>Edge: N/A\<close>,
  \<^verbatim>\<open>Over 6.5 Probability: 0.0%\<close> and \<^verbatim>\<open>Key Stats: Lineup source unknown\<close>.
\<close>

theorem format_result_skenes:
  "format_result (Some skenes) =
     Inr ''\<newline>=== Paul Skenes vs PHI ===\<newline>Projected Ks: 7.3\<newline>Vegas Line: N/A\<newline>Edge: N/A\<newline>Over 6.5 Probability: 0.0%\<newline>Key Stats: Lineup source unknown''
   \<and> lines_of ''\<newline>=== Paul Skenes vs PHI ===\<newline>Projected Ks: 7.3\<newline>Vegas Line: N/A\<newline>Edge: N/A\<newline>Over 6.5 Probability: 0.0%\<newline>Key Stats: Lineup source unknown'' =
     ['''', ''=== Paul Skenes vs PHI ==='', ''Projected Ks: 7.3'', ''Vegas Line: N/A'', ''Edge: N/A'',
      ''Over 6.5 Probability: 0.0%'', ''Key Stats: Lineup source unknown'']"
  by (simp add: format_result_skenes_text)

subsection \<open>Which numbers \<^verbatim>\<open>.1f\<close> formats\<close>

lemma bit_length_lower: "0 < n \<Longrightarrow> 2 ^ (bit_length n - 1) \<le> n"
proof (induction n rule: bit_length.induct)
  case (1 n)
  show ?case
  proof (cases "n div 2 = 0")
    case True
    with "1.prems" have "n = 1" by presburger
    then show ?thesis by (simp add: bit_length.simps)
  next
    case False
    then have pos: "0 < n div 2" by simp
    from "1.IH" [OF _ pos] "1.prems" have ih: "2 ^ (bit_length (n div 2) - 1) \<le> n div 2" by simp
    have bl: "bit_length n = Suc (bit_length (n div 2))"
      using "1.prems" by (subst bit_length.simps) simp
    have "0 < bit_length (n div 2)" using pos by (subst bit_length.simps) simp
    then have "2 ^ (bit_length n - 1) = 2 * 2 ^ (bit_length (n div 2) - 1)"
      by (cases "bit_length (n div 2)") (simp_all add: bl)
    also have "\<dots> \<le> 2 * (n div 2)" using ih by simp
    also have "\<dots> \<le> n" by simp
    finally show ?thesis .
  qed
qed

lemma round_half_even_upper: "0 < d \<Longrightarrow> 2 * (round_half_even a d * d) \<le> 2 * a + d"
proof -
  assume d: "0 < d"
  have split: "a = (a div d) * d + a mod d" by simp
  show ?thesis
  proof (cases "d < 2 * (a mod d) \<or> (2 * (a mod d) = d \<and> odd (a div d))")
    case True
    then have r: "d \<le> 2 * (a mod d)" by auto
    have "round_half_even a d = a div d + 1" using True by (simp add: round_half_even_def Let_def)
    then have "2 * (round_half_even a d * d) = 2 * ((a div d) * d) + 2 * d" by (simp add: algebra_simps)
    also have "\<dots> \<le> 2 * ((a div d) * d) + 2 * (a mod d) + d" using r by simp
    also have "\<dots> = 2 * a + d" using split by (metis add_mult_distrib2)
    finally show ?thesis .
  next
    case False
    then have "round_half_even a d = a div d" by (auto simp add: round_half_even_def Let_def)
    moreover have "(a div d) * d \<le> a" by simp
    then have "2 * ((a div d) * d) \<le> 2 * a + d" by linarith
    ultimately show ?thesis by simp
  qed
qed

lemma int_to_float_in_range:
  assumes "\<bar>i\<bar> < 2 ^ 1024 - 2 ^ 970"
  shows "\<exists>x. int_to_float i = Inr x"
proof -
  define a where "a = nat \<bar>i\<bar>"
  define n where "n = bit_length a"
  have a: "a < 2 ^ 1024 - 2 ^ 970" using assms unfolding a_def by (simp add: nat_less_iff)
  show ?thesis
  proof (cases "n \<le> 53")
    case True
    then show ?thesis by (simp add: int_to_float_def a_def [symmetric] n_def [symmetric] Let_def)
  next
    case False
    then have apos: "0 < a" unfolding n_def by (subst (asm) bit_length.simps) (simp split: if_splits)
    have "n \<le> 1024"
    proof (rule ccontr)
      assume "\<not> n \<le> 1024"
      then have "(2::nat) ^ 1024 \<le> 2 ^ (n - 1)" by (intro power_increasing) simp_all
      also have "\<dots> \<le> a" using bit_length_lower [OF apos] by (simp add: n_def)
      finally show False using a by simp
    qed
    then have sh: "n - 53 \<le> 971" by simp
    define d :: nat where "d = 2 ^ (n - 53)"
    have dpos: "0 < d" by (simp add: d_def)
    have dle: "d \<le> 2 ^ 971" unfolding d_def using sh by (intro power_increasing) simp_all
    have "2 * (round_half_even a d * d) \<le> 2 * a + d" by (rule round_half_even_upper [OF dpos])
    also have "\<dots> < 2 * (2 ^ 1024 - 2 ^ 970) + 2 ^ 971" using a dle by linarith
    also have "\<dots> = 2 * (2::nat) ^ 1024" by simp
    finally have "round_half_even a d * d < 2 ^ 1024" by (simp add: mult.commute)
    then show ?thesis using False
      by (simp add: int_to_float_def a_def [symmetric] n_def [symmetric] d_def [symmetric] Let_def)
  qed
qed

lemma format_1f_number: "is_number v \<Longrightarrow> \<exists>t. format_1f v = Inr t"
proof (cases v)
  case (PyInt i)
  assume "is_number v"
  with PyInt obtain x where "int_to_float i = Inr x" using int_to_float_in_range by auto
  with PyInt show ?thesis by simp
next
  case (PyBool b)
  have "\<exists>x. int_to_float (if b then 1 else 0) = Inr x" by (rule int_to_float_in_range) simp
  with PyBool show ?thesis by auto
qed auto

lemma bit_length_upper: "n < 2 ^ bit_length n"
proof (induction n rule: bit_length.induct)
  case (1 n)
  show ?case
  proof (cases "n = 0")
    case True
    then show ?thesis by (simp add: bit_length.simps)
  next
    case False
    with "1.IH" have "n div 2 < 2 ^ bit_length (n div 2)" by simp
    then have "n < 2 * 2 ^ bit_length (n div 2)" by linarith
    with False show ?thesis by (subst bit_length.simps) simp
  qed
qed

lemma round_half_even_lower: "a div d \<le> round_half_even a d"
  by (simp add: round_half_even_def Let_def)

text \<open>
  The bound of \<^verbatim>\<open>is_number\<close> is exact: from \<^verbatim>\<open>2**1024 - 2**970\<close> on, an int rounds to
  \<^verbatim>\<open>2**1024\<close> or more and the conversion to float raises \<^verbatim>\<open>OverflowError\<close>.
\<close>

lemma int_to_float_overflow:
  assumes "2 ^ 1024 - 2 ^ 970 \<le> \<bar>i\<bar>"
  shows "int_to_float i = Inl (Raised OverflowError ''int too large to convert to float'')"
proof -
  define a where "a = nat \<bar>i\<bar>"
  define n where "n = bit_length a"
  define d :: nat where "d = 2 ^ (n - 53)"
  have a: "2 ^ 1024 - 2 ^ 970 \<le> a" using assms unfolding a_def by (simp add: le_nat_iff)
  have "(2::nat) ^ 1023 \<le> 2 ^ 1024 - 2 ^ 970" by simp
  with a have a1023: "(2::nat) ^ 1023 \<le> a" by linarith
  have n1024: "1024 \<le> n"
  proof (rule ccontr)
    assume "\<not> 1024 \<le> n"
    then have "n \<le> 1023" by simp
    then have "(2::nat) ^ n \<le> 2 ^ 1023" by (intro power_increasing) simp_all
    moreover have "a < 2 ^ n" unfolding n_def by (rule bit_length_upper)
    ultimately show False using a1023 by linarith
  qed
  have big: "2 ^ 1024 \<le> round_half_even a d * d"
  proof (cases "n = 1024")
    case True
    then have d: "d = 2 ^ 971" by (simp add: d_def)
    have lt: "a < 2 ^ 1024" using bit_length_upper [of a] True by (simp add: n_def)
    define f where "f = a div d"
    have split: "a = f * d + a mod d" by (simp add: f_def)
    have "f * d \<le> a" by (simp add: f_def)
    with lt have "f * 2 ^ 971 < 2 ^ 53 * (2::nat) ^ 971" by (simp add: d)
    then have f_le: "f < 2 ^ 53" by simp
    have "(2 ^ 53 - 1) * (2::nat) ^ 971 \<le> a" using a by simp
    then have "((2 ^ 53 - 1) * (2::nat) ^ 971) div 2 ^ 971 \<le> a div 2 ^ 971" by (rule div_le_mono)
    then have f_ge: "2 ^ 53 - 1 \<le> f" by (simp add: f_def d)
    from f_le f_ge have f: "f = 2 ^ 53 - 1" by simp
    have r: "d \<le> 2 * (a mod d)"
    proof -
      have "a mod d = a - f * d" using split by linarith
      moreover have "2 ^ 1024 - 2 ^ 970 - (2 ^ 53 - 1) * (2::nat) ^ 971 = 2 ^ 970" by simp
      ultimately have "2 ^ 970 \<le> a mod d" using a by (simp add: f d)
      then show ?thesis by (simp add: d)
    qed
    have "odd f" by (simp add: f)
    with r have "round_half_even a d = f + 1"
      by (auto simp add: round_half_even_def Let_def f_def)
    then show ?thesis by (simp add: f d)
  next
    case False
    with n1024 have n: "1025 \<le> n" by simp
    have "0 < (2::nat) ^ 1023" by simp
    with a1023 have apos: "0 < a" by linarith
    have low: "2 ^ (n - 1) \<le> a" using bit_length_lower [OF apos] by (simp add: n_def)
    have "n - 1 = 52 + (n - 53)" using n by simp
    then have pw: "(2::nat) ^ (n - 1) = 2 ^ 52 * d"
      by (simp only: power_add d_def)
    with low have "(2 ^ 52 * d) div d \<le> a div d" by (intro div_le_mono) simp
    moreover have "0 < d" by (simp add: d_def)
    ultimately have "2 ^ 52 \<le> a div d" by simp
    also have "\<dots> \<le> round_half_even a d" by (rule round_half_even_lower)
    finally have "2 ^ 52 * d \<le> round_half_even a d * d" by (rule mult_le_mono1)
    moreover have "(2::nat) ^ 1024 \<le> 2 ^ (n - 1)" using n by (intro power_increasing) simp_all
    ultimately show ?thesis unfolding pw [symmetric] by (rule order_trans [rotated])
  qed
  have "\<not> n \<le> 53" using n1024 by simp
  with big show ?thesis
    by (simp add: int_to_float_def a_def [symmetric] n_def [symmetric] d_def [symmetric] Let_def)
qed

text \<open>So \<^verbatim>\<open>.1f\<close> formats exactly the values of \<^verbatim>\<open>is_number\<close>.\<close>

lemma format_1f_number_iff: "(\<exists>t. format_1f v = Inr t) \<longleftrightarrow> is_number v"
proof
  assume "is_number v"
  then show "\<exists>t. format_1f v = Inr t" by (rule format_1f_number)
next
  assume ok: "\<exists>t. format_1f v = Inr t"
  show "is_number v"
  proof (cases v)
    case (PyInt i)
    show ?thesis
    proof (rule ccontr)
      assume "\<not> is_number v"
      with PyInt have "2 ^ 1024 - 2 ^ 970 \<le> \<bar>i\<bar>" by simp
      then have "int_to_float i = Inl (Raised OverflowError ''int too large to convert to float'')"
        by (rule int_to_float_overflow)
      with PyInt ok show False by simp
    qed
  qed (use ok in auto)
qed

subsection \<open>Which values a field without format spec renders\<close>

lemma py_str_has_str: "has_str v \<Longrightarrow> \<exists>t. py_str v = Inr t"
  by (cases v) simp_all

lemma py_str_long: "\<not> has_str v \<Longrightarrow> \<exists>m. py_str v = Inl (Raised ValueError m)"
  by (cases v) simp_all

lemma py_str_iff: "(\<exists>t. py_str v = Inr t) \<longleftrightarrow> has_str v"
  by (cases v) simp_all

lemma has_str_long_int: "\<not> has_str (PyInt long_int)"
proof -
  have "(0::int) \<le> 10 ^ 4300" by (rule zero_le_power) simp
  then have "\<bar>(10::int) ^ 4300\<bar> = 10 ^ 4300" by (rule abs_of_nonneg)
  then show ?thesis
    by (simp only: has_str.simps long_int_def max_str_digits_def less_irrefl not_False_eq_True)
qed

text \<open>An optional key: its value if it is there, its default if not.\<close>

lemma optional_str:
  assumes "present has_str d k"
  shows "\<exists>t. py_str (dict_get d k (PyStr dflt)) = Inr t
           \<and> (case fmlookup d k of None \<Rightarrow> t = dflt | Some v \<Rightarrow> py_str v = Inr t)"
proof (cases "fmlookup d k")
  case None
  then show ?thesis by (simp add: dict_get_def)
next
  case (Some v)
  with assms have "has_str v" by (simp add: present_def)
  then obtain t where "py_str v = Inr t" using py_str_has_str by blast
  with Some show ?thesis by (simp add: dict_get_def)
qed

lemma optional_1f:
  assumes "present is_number d k"
  shows "\<exists>t. format_1f (dict_get d k (PyInt 0)) = Inr t
           \<and> (case fmlookup d k of None \<Rightarrow> t = ''0.0'' | Some v \<Rightarrow> format_1f v = Inr t)"
proof (cases "fmlookup d k")
  case None
  then show ?thesis by (simp add: dict_get_def int_to_float_0 fixed1_zero)
next
  case (Some v)
  with assms have "is_number v" by (simp add: present_def)
  then obtain t where "format_1f v = Inr t" using format_1f_number by blast
  with Some show ?thesis by (simp add: dict_get_def)
qed

subsection \<open>Required and optional keys\<close>

text \<open>
  C9, as stated, fails: the first f-string formats \<^verbatim>\<open>pitcher\<close> and \<^verbatim>\<open>opponent\<close> before the
  second one looks up \<^verbatim>\<open>mean\<close>. The result \<^verbatim>\<open>{"pitcher": 10**4300, "opponent": "PHI"}\<close> is
  not empty and lacks \<^verbatim>\<open>mean\<close>, and the error raised is the \<^verbatim>\<open>ValueError\<close> of \<^verbatim>\<open>str()\<close> for an
  int of more than 4300 digits, not a missing-key failure.
\<close>

theorem format_result_long_pitcher_counterexample:
  "long_pitcher \<noteq> fmempty
   \<and> fmlookup long_pitcher ''pitcher'' = Some (PyInt long_int)
   \<and> fmlookup long_pitcher ''mean'' = None
   \<and> (\<exists>m. format_result (Some long_pitcher) = Inl (Raised ValueError m))"
proof -
  have look: "fmlookup long_pitcher ''pitcher'' = Some (PyInt long_int)"
    "fmlookup long_pitcher ''mean'' = None"
    by (simp_all add: long_pitcher_def)
  from look(1) have ne: "long_pitcher \<noteq> fmempty" by (rule lookup_nonempty)
  obtain m where "py_str (PyInt long_int) = Inl (Raised ValueError m)"
    using py_str_long [OF has_str_long_int] by blast
  with look(1) ne have "format_result (Some long_pitcher) = Inl (Raised ValueError m)"
    by (simp add: format_result_def getitem_def del: py_str.simps)
  with look ne show ?thesis by blast
qed

text \<open>
  C9, amended: for a dict that is not empty and lacks \<^verbatim>\<open>pitcher\<close>, \<^verbatim>\<open>opponent\<close> or \<^verbatim>\<open>mean\<close>,
  \<^verbatim>\<open>format_result\<close> raises an error and no default stands in for the required key. The
  error is \<^verbatim>\<open>KeyError\<close> for the first of these keys that is missing, unless \<^verbatim>\<open>pitcher\<close> or
  \<^verbatim>\<open>opponent\<close>, formatted before that key is looked up, is an int of more than 4300
  digits: then it is the \<^verbatim>\<open>ValueError\<close> of \<^verbatim>\<open>str()\<close>.
\<close>

theorem format_result_missing_required:
  assumes "d \<noteq> fmempty"
    and "fmlookup d ''pitcher'' = None \<or> fmlookup d ''opponent'' = None \<or> fmlookup d ''mean'' = None"
  shows "if present has_str d ''pitcher''
            \<and> (fmlookup d ''pitcher'' = None \<or> present has_str d ''opponent'')
         then format_result (Some d) =
                Inl (Raised KeyError
                  (key_repr (if fmlookup d ''pitcher'' = None then ''pitcher''
                             else if fmlookup d ''opponent'' = None then ''opponent'' else ''mean'')))
         else (\<exists>m. format_result (Some d) = Inl (Raised ValueError m))"
proof (cases "fmlookup d ''pitcher''")
  case None
  with assms(1) show ?thesis by (simp add: format_result_def getitem_def present_def)
next
  case p: (Some p)
  show ?thesis
  proof (cases "has_str p")
    case False
    then obtain m where "py_str p = Inl (Raised ValueError m)" using py_str_long by blast
    with p False assms(1) show ?thesis by (simp add: format_result_def getitem_def present_def)
  next
    case True
    then obtain pt where pt: "py_str p = Inr pt" using py_str_has_str by blast
    show ?thesis
    proof (cases "fmlookup d ''opponent''")
      case None
      with p pt True assms(1) show ?thesis by (simp add: format_result_def getitem_def present_def)
    next
      case q: (Some q)
      with p assms(2) have mean: "fmlookup d ''mean'' = None" by simp
      show ?thesis
      proof (cases "has_str q")
        case False
        then obtain m where "py_str q = Inl (Raised ValueError m)" using py_str_long by blast
        with p pt q True False assms(1) show ?thesis
          by (simp add: format_result_def getitem_def present_def)
      next
        case qs: True
        then obtain qt where "py_str q = Inr qt" using py_str_has_str by blast
        with p pt q mean True qs assms(1) show ?thesis
          by (simp add: format_result_def getitem_def present_def)
      qed
    qed
  qed
qed

text \<open>A result without \<^verbatim>\<open>mean\<close>: \<^verbatim>\<open>KeyError('mean')\<close>, whose text is \<^verbatim>\<open>'mean'\<close>.\<close>

theorem format_result_missing_required_witness:
  "fmap_of_list [(''pitcher'', PyStr ''Paul Skenes''), (''opponent'', PyStr ''PHI'')] \<noteq> fmempty
   \<and> fmlookup (fmap_of_list [(''pitcher'', PyStr ''Paul Skenes''), (''opponent'', PyStr ''PHI'')]) ''mean'' = None
   \<and> format_result (Some (fmap_of_list [(''pitcher'', PyStr ''Paul Skenes''), (''opponent'', PyStr ''PHI'')])) =
       Inl (Raised KeyError ([CHR 0x27] @ ''mean'' @ [CHR 0x27]))"
  using format_result_missing_required
    [of "fmap_of_list [(''pitcher'', PyStr ''Paul Skenes''), (''opponent'', PyStr ''PHI'')]"]
  by (simp add: key_repr_def present_def)

text \<open>
  C2, as stated, fails: a result that holds the three required keys and also
  \<^verbatim>\<open>"prob_over_6.5": None\<close> makes \<^verbatim>\<open>format_result\<close> raise \<^verbatim>\<open>TypeError\<close>, since
  \<^verbatim>\<open>.get\<close> returns the stored \<^verbatim>\<open>None\<close> and \<^verbatim>\<open>.1f\<close> does not format it.
\<close>

theorem format_result_optional_counterexample:
  "format_result (Some (fmap_of_list
       [(''pitcher'', PyStr ''Paul Skenes''), (''opponent'', PyStr ''PHI''),
        (''mean'', PyFloat (Finite False 8219069319951155 (- 50))),
        (''prob_over_6.5'', PyNone)])) =
     Inl (Raised TypeError ''unsupported format string passed to NoneType.__format__'')"
  by (simp add: format_result_def getitem_def dict_get_def)

text \<open>
  C2, amended: for every dict that holds \<^verbatim>\<open>pitcher\<close>, \<^verbatim>\<open>opponent\<close> and \<^verbatim>\<open>mean\<close> and whose values
  can be formatted the way their fields ask, formatting returns the block, whatever
  subset of the four optional keys is missing; each missing optional key is rendered by
  its default: \<^verbatim>\<open>N/A\<close> for \<^verbatim>\<open>vegas_line\<close> and \<^verbatim>\<open>edge\<close>, \<^verbatim>\<open>0.0\<close> for \<^verbatim>\<open>prob_over_6.5\<close>,
  \<^verbatim>\<open>Lineup source unknown\<close> for \<^verbatim>\<open>lineup_source\<close>. The values that can be formatted are:
  for \<^verbatim>\<open>mean\<close> and \<^verbatim>\<open>prob_over_6.5\<close>, under \<^verbatim>\<open>.1f\<close>, the numbers; for the other keys, under
  \<^verbatim>\<open>str()\<close>, all but an int of more than 4300 digits.
\<close>

theorem format_result_optional_defaults:
  assumes "fmlookup d ''pitcher'' = Some pitcher" and "has_str pitcher"
    and "fmlookup d ''opponent'' = Some opponent" and "has_str opponent"
    and "fmlookup d ''mean'' = Some mean" and "is_number mean"
    and "present has_str d ''vegas_line''"
    and "present has_str d ''edge''"
    and "present is_number d ''prob_over_6.5''"
    and "present has_str d ''lineup_source''"
  shows "\<exists>pitcher_text opponent_text mean_text line_text edge_text prob_text source_text.
     py_str pitcher = Inr pitcher_text
     \<and> py_str opponent = Inr opponent_text
     \<and> format_1f mean = Inr mean_text
     \<and> (case fmlookup d ''vegas_line'' of
           None \<Rightarrow> line_text = ''N/A'' | Some v \<Rightarrow> py_str v = Inr line_text)
     \<and> (case fmlookup d ''edge'' of
           None \<Rightarrow> edge_text = ''N/A'' | Some v \<Rightarrow> py_str v = Inr edge_text)
     \<and> (case fmlookup d ''prob_over_6.5'' of
           None \<Rightarrow> prob_text = ''0.0'' | Some v \<Rightarrow> format_1f v = Inr prob_text)
     \<and> (case fmlookup d ''lineup_source'' of
           None \<Rightarrow> source_text = ''Lineup source unknown''
         | Some v \<Rightarrow> py_str v = Inr source_text)
     \<and> format_result (Some d) = Inr (join newline
          [ newline @ ''=== '' @ pitcher_text @ '' vs '' @ opponent_text @ '' ==='',
            ''Projected Ks: '' @ mean_text,
            ''Vegas Line: '' @ line_text,
            ''Edge: '' @ edge_text,
            ''Over 6.5 Probability: '' @ prob_text @ ''%'',
            ''Key Stats: '' @ source_text ])"
proof -
  obtain pt where pt: "py_str pitcher = Inr pt" using assms(2) py_str_has_str by blast
  obtain ot where ot: "py_str opponent = Inr ot" using assms(4) py_str_has_str by blast
  obtain mt where mt: "format_1f mean = Inr mt" using assms(6) format_1f_number by blast
  obtain lt where lt: "py_str (dict_get d ''vegas_line'' (PyStr ''N/A'')) = Inr lt"
    and lt': "case fmlookup d ''vegas_line'' of None \<Rightarrow> lt = ''N/A'' | Some v \<Rightarrow> py_str v = Inr lt"
    using optional_str [OF assms(7)] by blast
  obtain et where et: "py_str (dict_get d ''edge'' (PyStr ''N/A'')) = Inr et"
    and et': "case fmlookup d ''edge'' of None \<Rightarrow> et = ''N/A'' | Some v \<Rightarrow> py_str v = Inr et"
    using optional_str [OF assms(8)] by blast
  obtain prt where prt: "format_1f (dict_get d ''prob_over_6.5'' (PyInt 0)) = Inr prt"
    and prt': "case fmlookup d ''prob_over_6.5'' of
                 None \<Rightarrow> prt = ''0.0'' | Some v \<Rightarrow> format_1f v = Inr prt"
    using optional_1f [OF assms(9)] by blast
  obtain st where st: "py_str (dict_get d ''lineup_source'' (PyStr ''Lineup source unknown'')) = Inr st"
    and st': "case fmlookup d ''lineup_source'' of
                None \<Rightarrow> st = ''Lineup source unknown'' | Some v \<Rightarrow> py_str v = Inr st"
    using optional_str [OF assms(10)] by blast
  have ne: "d \<noteq> fmempty" using assms(1) by (rule lookup_nonempty)
  have "format_result (Some d) = Inr (join newline
          [ newline @ ''=== '' @ pt @ '' vs '' @ ot @ '' ==='',
            ''Projected Ks: '' @ mt,
            ''Vegas Line: '' @ lt,
            ''Edge: '' @ et,
            ''Over 6.5 Probability: '' @ prt @ ''%'',
            ''Key Stats: '' @ st ])"
    using ne assms(1,3,5) pt ot mt lt et prt st
    by (simp add: format_result_def getitem_def)
  with pt ot mt lt' et' prt' st' show ?thesis by blast
qed

lemma float_repr_6_5: "float_repr (Finite False 13 (- 1)) = ''6.5''"
proof -
  have n: "normalize_double 13 (- 1) = (7318349394477056, - 50)"
    by (simp add: normalize_double_def bit_length.simps Let_def)
  have k: "dec_exp 7318349394477056 (- 50) = 0"
    by (simp add: dec_exp_def str_nat.simps digit_char_def Let_def)
  have "shortest_digits 7318349394477056 (- 50) = (''65'', 1)"
    unfolding shortest_digits_def k
    apply (simp add: floor_scaled_def reads_back_def cmp_scaled_def)
    apply (simp add: strip_zeros_def str_nat.simps digit_char_def)
    done
  then show ?thesis by (simp add: n repr_digits_def)
qed

lemma float_repr_0_8: "float_repr (Finite False 3602879701896397 (- 52)) = ''0.8''"
proof -
  have n: "normalize_double 3602879701896397 (- 52) = (7205759403792794, - 53)"
    by (simp add: normalize_double_def bit_length.simps Let_def)
  have k: "dec_exp 7205759403792794 (- 53) = - 1"
    by (simp add: dec_exp_def str_nat.simps digit_char_def Let_def)
  have "shortest_digits 7205759403792794 (- 53) = (''8'', 0)"
    unfolding shortest_digits_def k
    apply (simp add: floor_scaled_def reads_back_def cmp_scaled_def)
    apply (simp add: strip_zeros_def str_nat.simps digit_char_def)
    done
  then show ?thesis by (simp add: n repr_digits_def)
qed

text \<open>
  A result with \<^verbatim>\<open>vegas_line\<close> and \<^verbatim>\<open>edge\<close> but neither \<^verbatim>\<open>prob_over_6.5\<close> nor
  \<^verbatim>\<open>lineup_source\<close>.
\<close>

theorem format_result_optional_defaults_witness:
  "fmlookup skenes_line ''pitcher'' = Some (PyStr ''Paul Skenes'')
   \<and> fmlookup skenes_line ''opponent'' = Some (PyStr ''PHI'')
   \<and> fmlookup skenes_line ''mean'' = Some (PyFloat (Finite False 8219069319951155 (- 50)))
   \<and> is_number (PyFloat (Finite False 8219069319951155 (- 50)))
   \<and> present has_str skenes_line ''vegas_line''
   \<and> present has_str skenes_line ''edge''
   \<and> fmlookup skenes_line ''prob_over_6.5'' = None
   \<and> fmlookup skenes_line ''lineup_source'' = None
   \<and> format_result (Some skenes_line) =
       Inr ''\<newline>=== Paul Skenes vs PHI ===\<newline>Projected Ks: 7.3\<newline>Vegas Line: 6.5\<newline>Edge: 0.8\<newline>Over 6.5 Probability: 0.0%\<newline>Key Stats: Lineup source unknown''"
  using format_result_optional_defaults
    [of skenes_line "PyStr ''Paul Skenes''" "PyStr ''PHI''"
        "PyFloat (Finite False 8219069319951155 (- 50))"]
  by (simp add: skenes_line_def present_def fixed1_skenes_mean float_repr_6_5 float_repr_0_8
      newline_def del: float_repr.simps)

section \<open>Properties of the argument parser\<close>

lemma predict_options:
  "all_option_strings predict_parser =
     [''-h'', ''--help'', ''--pitcher'', ''--opponent'', ''--park'', ''--debug'']"
  by (simp add: all_option_strings_def predict_parser_def help_argument_def add_argument_def
      add_argument_store_true_def)

lemma find_argument_predict:
  "find_argument predict_parser opt = Some a \<Longrightarrow>
     (action a = Help \<and> (opt = ''-h'' \<or> opt = ''--help''))
     \<or> (action a = Store \<and> opt = ''--'' @ dest a
          \<and> (dest a = ''pitcher'' \<or> dest a = ''opponent'' \<or> dest a = ''park''))
     \<or> (action a = StoreTrue \<and> opt = ''--'' @ dest a \<and> dest a = ''debug'')"
  by (auto simp add: find_argument_def predict_parser_def help_argument_def add_argument_def
      add_argument_store_true_def split: if_splits)

lemma gives_Cons:
  "t \<noteq> ''--'' \<Longrightarrow> gives opt (t # ts) \<longleftrightarrow>
     is_option opt (parse_optional (all_option_strings predict_parser) t) \<or> gives opt ts"
  by (simp add: gives_def)

text \<open>An option takes at most the next argument, and never \<^verbatim>\<open>--\<close>.\<close>

lemma consume_optional_taken:
  assumes "consume_optional args state t ts = Parsed (state', n)"
  shows "n = 0 \<or> (n = 1 \<and> (\<exists>v ts'. ts = v # ts' \<and> v \<noteq> ''--''))"
proof -
  obtain ns seen extras where "state = (ns, seen, extras)" by (cases state) auto
  with assms show ?thesis
    by (auto simp add: consume_optional_def
        split: arg_class.splits option.splits arg_action.splits list.splits if_splits)
qed

lemma gives_drop:
  assumes "consume_optional args state t ts = Parsed (state', n)"
    and "gives opt (drop n ts)"
  shows "gives opt ts"
  using consume_optional_taken [OF assms(1)] assms(2)
  by (auto simp add: gives_def)

text \<open>One step: what it adds to the destinations seen comes from the argument handled.\<close>

lemma consume_optional_seen:
  assumes "consume_optional predict_parser (ns, seen, extras) t ts = Parsed ((ns', seen', extras'), n)"
    and "d \<in> set seen'"
  shows "d \<in> set seen \<or> is_option (''--'' @ d) (parse_optional (all_option_strings predict_parser) t)"
  using assms
  by (auto simp add: consume_optional_def
      split: arg_class.splits option.splits arg_action.splits list.splits if_splits
      dest!: find_argument_predict)

lemma consume_optionals_seen:
  assumes "consume_optionals predict_parser (ns, seen, extras) ts = Parsed (ns', seen', extras')"
    and "d \<in> set seen'"
  shows "d \<in> set seen \<or> gives (''--'' @ d) ts"
  using assms
proof (induction ts arbitrary: ns seen extras rule: length_induct)
  case (1 ts)
  show ?case
  proof (cases ts)
    case Nil
    with "1.prems" show ?thesis by simp
  next
    case (Cons t rest)
    show ?thesis
    proof (cases "t = ''--''")
      case True
      with Cons "1.prems" show ?thesis by simp
    next
      case False
      with Cons "1.prems"(1) obtain ns1 seen1 extras1 n where
        step: "consume_optional predict_parser (ns, seen, extras) t rest = Parsed ((ns1, seen1, extras1), n)"
        and loop: "consume_optionals predict_parser (ns1, seen1, extras1) (drop n rest) = Parsed (ns', seen', extras')"
        by (auto split: parsed.splits)
      have "length (drop n rest) < length ts" using Cons by simp
      with "1.IH" loop "1.prems"(2) have "d \<in> set seen1 \<or> gives (''--'' @ d) (drop n rest)"
        by blast
      then show ?thesis
        using consume_optional_seen [OF step] Cons False gives_drop [OF step]
        by (auto simp add: gives_Cons)
    qed
  qed
qed

lemma top_options:
  "all_option_strings (parser_arguments setup_parser) = [''-h'', ''--help'']"
  by (simp add: all_option_strings_def setup_parser_def help_argument_def)

subsection \<open>Help\<close>

lemma help_token_predict:
  assumes "is_option ''-h'' (parse_optional (all_option_strings predict_parser) t)
           \<or> is_option ''--help'' (parse_optional (all_option_strings predict_parser) t)"
  shows "help_token t"
proof (cases t)
  case Nil
  with assms show ?thesis by (simp add: parse_optional_def)
next
  case (Cons c cs)
  show ?thesis
  proof (cases cs)
    case Nil
    with Cons assms show ?thesis by (simp add: parse_optional_def predict_options split: if_splits)
  next
    case (Cons d ds)
    with \<open>t = c # cs\<close> assms show ?thesis
      by (auto simp add: parse_optional_def predict_options help_token_def partition_eq_def Let_def
          split: if_splits list.splits prod.splits)
  qed
qed

lemma help_token_top:
  assumes "parse_optional (all_option_strings (parser_arguments setup_parser)) t = Option opt explicit"
  shows "help_token t"
proof (cases t)
  case Nil
  with assms show ?thesis by (simp add: parse_optional_def)
next
  case (Cons c cs)
  show ?thesis
  proof (cases cs)
    case Nil
    with Cons assms show ?thesis by (simp add: parse_optional_def top_options split: if_splits)
  next
    case (Cons d ds)
    with \<open>t = c # cs\<close> assms show ?thesis
      by (auto simp add: parse_optional_def top_options help_token_def partition_eq_def Let_def
          split: if_splits list.splits prod.splits)
  qed
qed

lemma consume_optional_help:
  assumes "consume_optional predict_parser state t ts = HelpExit"
  shows "help_token t"
proof -
  obtain ns seen extras where st: "state = (ns, seen, extras)" by (cases state) auto
  from assms have "is_option ''-h'' (parse_optional (all_option_strings predict_parser) t)
           \<or> is_option ''--help'' (parse_optional (all_option_strings predict_parser) t)"
    unfolding st consume_optional_def
    by (auto split: arg_class.splits option.splits arg_action.splits list.splits if_splits
        dest!: find_argument_predict)
  then show ?thesis by (rule help_token_predict)
qed

lemma consume_optionals_help:
  "consume_optionals predict_parser state ts = HelpExit \<Longrightarrow> list_ex help_token ts"
proof (induction ts arbitrary: state rule: length_induct)
  case (1 ts)
  show ?case
  proof (cases ts)
    case Nil
    with "1.prems" show ?thesis by simp
  next
    case (Cons t rest)
    show ?thesis
    proof (cases "consume_optional predict_parser state t rest")
      case HelpExit
      then have "help_token t" by (rule consume_optional_help)
      with Cons show ?thesis by simp
    next
      case (UsageError e)
      with Cons "1.prems" show ?thesis by (auto split: if_splits prod.splits)
    next
      case (Parsed r)
      obtain state' n where r: "r = (state', n)" by (cases r) auto
      with Parsed Cons "1.prems" have "consume_optionals predict_parser state' (drop n rest) = HelpExit"
        by (auto split: if_splits prod.splits)
      moreover have "length (drop n rest) < length ts" using Cons by simp
      ultimately have "list_ex help_token (drop n rest)" using "1.IH" by blast
      then show ?thesis using Cons by (auto simp add: list_ex_iff dest: in_set_dropD)
    qed
  qed
qed

lemma parse_subcommand_help:
  "parse_subcommand predict_parser ts = HelpExit \<Longrightarrow> list_ex help_token ts"
  by (auto simp add: parse_subcommand_def Let_def split: option.splits parsed.splits if_splits
      dest: consume_optionals_help)

lemma map_of_subparsers:
  "map_of (subparsers setup_parser) t = Some args \<Longrightarrow> t = ''predict'' \<and> args = predict_parser"
  by (simp add: setup_parser_def split: if_splits)

lemma parse_command_help:
  "parse_command setup_parser extras argv = HelpExit \<Longrightarrow> list_ex help_token argv"
proof (induction argv arbitrary: extras)
  case Nil
  then show ?case by (simp add: setup_parser_def)
next
  case (Cons t ts)
  show ?case
  proof (cases "t = ''--''")
    case True
    with Cons.prems show ?thesis by (simp add: setup_parser_def split: if_splits)
  next
    case False
    show ?thesis
    proof (cases "parse_optional (all_option_strings (parser_arguments setup_parser)) t")
      case Positional
      with False Cons.prems have "list_ex help_token ts"
        by (auto split: option.splits parsed.splits if_splits dest!: map_of_subparsers
            dest: parse_subcommand_help)
      then show ?thesis by simp
    next
      case (Option opt explicit)
      then have "help_token t" by (rule help_token_top)
      then show ?thesis by simp
    next
      case (Ambiguous opts)
      with False Cons.prems show ?thesis by simp
    next
      case Unknown
      with False Cons.prems have "parse_command setup_parser (extras @ [t]) ts = HelpExit" by simp
      then have "list_ex help_token ts" by (rule Cons.IH)
      then show ?thesis by simp
    qed
  qed
qed

subsection \<open>The namespace\<close>

lemma defaults_predict:
  "defaults predict_parser =
     fmupd ''debug'' (PyBool False) (fmupd ''park'' (PyStr []) (fmupd ''opponent'' PyNone
       (fmupd ''pitcher'' PyNone fmempty)))"
  by (simp add: defaults_def predict_parser_def help_argument_def add_argument_def
      add_argument_store_true_def)

text \<open>An option that no argument names keeps the value it had.\<close>

lemma consume_optional_unchanged:
  assumes "consume_optional predict_parser (ns, seen, extras) t ts = Parsed ((ns', seen', extras'), n)"
    and "\<not> is_option (''--'' @ d) (parse_optional (all_option_strings predict_parser) t)"
  shows "fmlookup ns' d = fmlookup ns d"
  using assms
  by (auto simp add: consume_optional_def
      split: arg_class.splits option.splits arg_action.splits list.splits if_splits
      dest!: find_argument_predict)

lemma consume_optionals_unchanged:
  assumes "consume_optionals predict_parser (ns, seen, extras) ts = Parsed (ns', seen', extras')"
    and "\<not> gives (''--'' @ d) ts"
  shows "fmlookup ns' d = fmlookup ns d"
  using assms
proof (induction ts arbitrary: ns seen extras rule: length_induct)
  case (1 ts)
  show ?case
  proof (cases ts)
    case Nil
    with "1.prems" show ?thesis by simp
  next
    case (Cons t rest)
    show ?thesis
    proof (cases "t = ''--''")
      case True
      with Cons "1.prems" show ?thesis by simp
    next
      case False
      with Cons "1.prems"(1) obtain ns1 seen1 extras1 n where
        step: "consume_optional predict_parser (ns, seen, extras) t rest = Parsed ((ns1, seen1, extras1), n)"
        and loop: "consume_optionals predict_parser (ns1, seen1, extras1) (drop n rest) = Parsed (ns', seen', extras')"
        by (auto split: parsed.splits)
      have not_t: "\<not> is_option (''--'' @ d) (parse_optional (all_option_strings predict_parser) t)"
        and not_rest: "\<not> gives (''--'' @ d) (drop n rest)"
        using "1.prems"(2) Cons False gives_drop [OF step] by (auto simp add: gives_Cons)
      have "length (drop n rest) < length ts" using Cons by simp
      with "1.IH" loop not_rest have "fmlookup ns' d = fmlookup ns1 d" by blast
      also have "\<dots> = fmlookup ns d" using step not_t by (rule consume_optional_unchanged)
      finally show ?thesis .
    qed
  qed
qed

lemma consume_optional_typed:
  assumes "consume_optional predict_parser (ns, seen, extras) t ts = Parsed ((ns', seen', extras'), n)"
    and "well_typed ns seen"
  shows "well_typed ns' seen'"
  using assms
  by (auto simp add: consume_optional_def well_typed_def
      split: arg_class.splits option.splits arg_action.splits list.splits if_splits
      dest!: find_argument_predict)

lemma consume_optionals_typed:
  assumes "consume_optionals predict_parser (ns, seen, extras) ts = Parsed (ns', seen', extras')"
    and "well_typed ns seen"
  shows "well_typed ns' seen'"
  using assms
proof (induction ts arbitrary: ns seen extras rule: length_induct)
  case (1 ts)
  show ?case
  proof (cases ts)
    case Nil
    with "1.prems" show ?thesis by simp
  next
    case (Cons t rest)
    show ?thesis
    proof (cases "t = ''--''")
      case True
      with Cons "1.prems" show ?thesis by simp
    next
      case False
      with Cons "1.prems"(1) obtain ns1 seen1 extras1 n where
        step: "consume_optional predict_parser (ns, seen, extras) t rest = Parsed ((ns1, seen1, extras1), n)"
        and loop: "consume_optionals predict_parser (ns1, seen1, extras1) (drop n rest) = Parsed (ns', seen', extras')"
        by (auto split: parsed.splits)
      have "well_typed ns1 seen1" using step "1.prems"(2) by (rule consume_optional_typed)
      moreover have "length (drop n rest) < length ts" using Cons by simp
      ultimately show ?thesis using "1.IH" loop by blast
    qed
  qed
qed

lemma parse_subcommand_Parsed:
  assumes "parse_subcommand predict_parser ts = Parsed (ns, extras)"
  shows "\<exists>seen. consume_optionals predict_parser (defaults predict_parser, [], []) ts
                  = Parsed (ns, seen, extras)
               \<and> ''pitcher'' \<in> set seen \<and> ''opponent'' \<in> set seen"
proof -
  from assms obtain seen where
    run: "consume_optionals predict_parser (defaults predict_parser, [], []) ts = Parsed (ns, seen, extras)"
    and none: "filter (\<lambda>a. required a \<and> dest a \<notin> set seen) predict_parser = []"
    by (auto simp add: parse_subcommand_def Let_def split: option.splits parsed.splits if_splits)
  from none have "''pitcher'' \<in> set seen \<and> ''opponent'' \<in> set seen"
    by (simp add: predict_parser_def help_argument_def add_argument_def add_argument_store_true_def
        split: if_splits)
  with run show ?thesis by blast
qed

lemma parse_command_Parsed:
  assumes "parse_command setup_parser extras argv = Parsed ns"
  shows "extras = [] \<and> (\<exists>ts ns0. argv = ''predict'' # ts
           \<and> parse_subcommand predict_parser ts = Parsed (ns0, [])
           \<and> ns = fmupd ''command'' (PyStr ''predict'') ns0)"
  using assms
proof (induction argv arbitrary: extras)
  case Nil
  then show ?case by (simp add: setup_parser_def)
next
  case (Cons t ts)
  show ?case
  proof (cases "t = ''--''")
    case True
    with Cons.prems show ?thesis by (simp add: setup_parser_def split: if_splits)
  next
    case False
    show ?thesis
    proof (cases "parse_optional (all_option_strings (parser_arguments setup_parser)) t")
      case Positional
      with False Cons.prems obtain args ns0 sub where
        sub: "map_of (subparsers setup_parser) t = Some args"
        and run: "parse_subcommand args ts = Parsed (ns0, sub)"
        and empty: "extras @ sub = []"
        and ns: "ns = fmupd (subparsers_dest setup_parser) (PyStr t) ns0"
        by (auto split: option.splits parsed.splits if_splits)
      from sub have "t = ''predict''" "args = predict_parser" by (auto dest: map_of_subparsers)
      with run empty ns show ?thesis by (simp add: setup_parser_def)
    next
      case (Option opt explicit)
      with False Cons.prems show ?thesis by (simp split: if_splits)
    next
      case (Ambiguous opts)
      with False Cons.prems show ?thesis by simp
    next
      case Unknown
      with False Cons.prems have "parse_command setup_parser (extras @ [t]) ts = Parsed ns" by simp
      then have "extras @ [t] = []" using Cons.IH by blast
      then show ?thesis by simp
    qed
  qed
qed

lemma predict_is_positional:
  "parse_optional (all_option_strings predict_parser) ''predict'' = Positional"
  by (simp add: parse_optional_def)

text \<open>What a successful parse has seen and what it returns.\<close>

lemma parse_args_Parsed:
  assumes "parse_args setup_parser argv = Parsed ns"
  shows "\<exists>p q k b.
     fmlookup ns ''command'' = Some (PyStr ''predict'')
     \<and> fmlookup ns ''pitcher'' = Some (PyStr p)
     \<and> fmlookup ns ''opponent'' = Some (PyStr q)
     \<and> fmlookup ns ''park'' = Some (PyStr k)
     \<and> fmlookup ns ''debug'' = Some (PyBool b)
     \<and> gives ''--pitcher'' argv \<and> gives ''--opponent'' argv
     \<and> (\<not> gives ''--park'' argv \<longrightarrow> k = [])
     \<and> (\<not> gives ''--debug'' argv \<longrightarrow> b = False)"
proof -
  from assms obtain ts ns0 where argv: "argv = ''predict'' # ts"
    and sub: "parse_subcommand predict_parser ts = Parsed (ns0, [])"
    and ns: "ns = fmupd ''command'' (PyStr ''predict'') ns0"
    unfolding parse_args_def by (blast dest: parse_command_Parsed)
  from sub obtain seen where
    run: "consume_optionals predict_parser (defaults predict_parser, [], []) ts = Parsed (ns0, seen, [])"
    and seen: "''pitcher'' \<in> set seen" "''opponent'' \<in> set seen"
    by (blast dest: parse_subcommand_Parsed)
  have gives_argv: "gives opt argv \<longleftrightarrow> gives opt ts" for opt
    by (simp add: argv gives_Cons predict_is_positional)
  have "well_typed (defaults predict_parser) []"
    by (auto simp add: well_typed_def defaults_predict)
  with run have typed: "well_typed ns0 seen" by (rule consume_optionals_typed)
  with seen obtain p q k b where
    vals: "fmlookup ns0 ''pitcher'' = Some (PyStr p)" "fmlookup ns0 ''opponent'' = Some (PyStr q)"
      "fmlookup ns0 ''park'' = Some (PyStr k)" "fmlookup ns0 ''debug'' = Some (PyBool b)"
    unfolding well_typed_def by blast
  have given: "gives ''--pitcher'' ts" "gives ''--opponent'' ts"
    using consume_optionals_seen [OF run] seen by fastforce+
  have park: "k = []" if "\<not> gives ''--park'' ts"
  proof -
    from that have "\<not> gives (''--'' @ ''park'') ts" by simp
    with run have "fmlookup ns0 ''park'' = fmlookup (defaults predict_parser) ''park''"
      by (rule consume_optionals_unchanged)
    with vals show ?thesis by (simp add: defaults_predict)
  qed
  have debug: "b = False" if "\<not> gives ''--debug'' ts"
  proof -
    from that have "\<not> gives (''--'' @ ''debug'') ts" by simp
    with run have "fmlookup ns0 ''debug'' = fmlookup (defaults predict_parser) ''debug''"
      by (rule consume_optionals_unchanged)
    with vals show ?thesis by (simp add: defaults_predict)
  qed
  show ?thesis
    using vals given park debug by (auto simp add: ns gives_argv)
qed

subsection \<open>Sample command lines\<close>

lemmas parse_eval =
  parse_args_def setup_parser_def predict_parser_def help_argument_def add_argument_def
  add_argument_store_true_def all_option_strings_def parse_optional_def partition_eq_def
  negative_number_like_def digit_bytes_def code_point_def trail_def is_decimal_def
  decimal_zeros_def parse_subcommand_def consume_optional_def
  find_argument_def defaults_def help_requested_def Let_def

lemma parse_skenes_argv:
  "parse_args setup_parser skenes_argv =
     Parsed (fmupd ''command'' (PyStr ''predict'')
       (fmupd ''opponent'' (PyStr ''PHI'') (fmupd ''pitcher'' (PyStr ''Paul Skenes'')
         (fmupd ''debug'' (PyBool False) (fmupd ''park'' (PyStr []) (fmupd ''opponent'' PyNone
           (fmupd ''pitcher'' PyNone fmempty)))))))"
  by (simp add: skenes_argv_def parse_eval)

lemma parse_help: "parse_args setup_parser [''predict'', ''--help''] = HelpExit"
  by (simp add: parse_eval)

lemma parse_empty: "parse_args setup_parser [] = UsageError (MissingRequired [''command''])"
  by (simp add: parse_eval)

lemma parse_no_pitcher: "parse_args setup_parser [''predict'', ''--opponent'', ''PHI''] = UsageError (MissingRequired [''--pitcher''])"
  by (simp add: parse_eval)

lemma not_gives: "\<not> gives ''--pitcher'' [''predict'', ''--opponent'', ''PHI'']"
  by (simp add: gives_def parse_eval)

text \<open>
  A value that is a dash and a digit outside ASCII is a negative number to \<^verbatim>\<open>argparse\<close>,
  and \<^verbatim>\<open>--pitcher\<close> takes it.
\<close>

lemma negative_arabic: "negative_number_like [CHR ''-'', CHR 0xD9, CHR 0xA3]"
  by (simp add: negative_number_like_def digit_bytes_def code_point_def trail_def is_decimal_def
      decimal_zeros_def)

lemma parse_arabic_argv:
  "parse_args setup_parser arabic_argv =
     Parsed (fmupd ''command'' (PyStr ''predict'')
       (fmupd ''opponent'' (PyStr ''PHI'')
         (fmupd ''pitcher'' (PyStr [CHR ''-'', CHR 0xD9, CHR 0xA3])
           (fmupd ''debug'' (PyBool False) (fmupd ''park'' (PyStr []) (fmupd ''opponent'' PyNone
             (fmupd ''pitcher'' PyNone fmempty)))))))"
  by (simp add: arabic_argv_def parse_eval)

section \<open>Properties of the program\<close>

subsection \<open>The program after a successful parse\<close>

lemma main_after_parse:
  assumes "parse_args setup_parser argv = Parsed ns"
    and "fmlookup ns ''pitcher'' = Some pitcher"
    and "fmlookup ns ''opponent'' = Some opponent"
    and "fmlookup ns ''park'' = Some park"
    and "fmlookup ns ''debug'' = Some debug"
  shows "main engine argv =
     (case run_prediction engine pitcher opponent park of
        (called, Raises ex) \<Rightarrow> (BasicConfig (if truthy debug then DEBUG else INFO) # called, Raises ex)
      | (called, Never) \<Rightarrow> (BasicConfig (if truthy debug then DEBUG else INFO) # called, Never)
      | (called, Returns result) \<Rightarrow>
          (case format_result result of
             Inl ex \<Rightarrow> (BasicConfig (if truthy debug then DEBUG else INFO) # called, Raises ex)
           | Inr text \<Rightarrow>
               (BasicConfig (if truthy debug then DEBUG else INFO) # called @ [Print text],
                Returns ())))"
proof -
  from parse_args_Parsed [OF assms(1)]
  have "fmlookup ns ''command'' = Some (PyStr ''predict'')" by blast
  with assms show ?thesis
    by (auto simp add: main_def getattr_def split: prod.splits outcome.splits sum.splits)
qed

lemma skenes_argv_lookups:
  "\<exists>ns. parse_args setup_parser skenes_argv = Parsed ns
     \<and> fmlookup ns ''pitcher'' = Some (PyStr ''Paul Skenes'')
     \<and> fmlookup ns ''opponent'' = Some (PyStr ''PHI'')
     \<and> fmlookup ns ''park'' = Some (PyStr [])
     \<and> fmlookup ns ''debug'' = Some (PyBool False)"
  by (simp add: parse_skenes_argv)

text \<open>What the script makes of the way \<^verbatim>\<open>main\<close> ends.\<close>

lemma script_Returns:
  "main engine argv = (acts, Returns u) \<Longrightarrow> script engine argv = (acts, Some 0)"
  by (simp add: script_def asyncio_run_def)

lemma script_Never:
  "main engine argv = (acts, Never) \<Longrightarrow> script engine argv = (acts, None)"
  by (simp add: script_def asyncio_run_def)

lemma script_Raises:
  "main engine argv = (acts, Raises ex) \<Longrightarrow> script engine argv =
     (if exc_cls ex = KeyboardInterrupt \<or> exc_cls ex = CancelledError True
      then (acts @ [Print (newline @ ''Operation cancelled by user'')], Some 0)
      else if is_Exception (exc_cls ex)
      then (acts @ [Log ERROR (''Fatal error: '' @ exc_str ex)], Some 1)
      else case exc_cls ex of
             SystemExit code \<Rightarrow> (acts, Some (process_status code))
           | _ \<Rightarrow> (acts @ [Traceback ex], Some 1))"
  by (auto simp add: script_def asyncio_run_def split: exc_class.splits)

lemma process_status_small: "process_status 0 = 0" "process_status 2 = 2"
  by (simp_all add: process_status_def)

subsection \<open>The containment boundary of \<^verbatim>\<open>run_prediction\<close>\<close>

text \<open>
  C1, as stated, fails: a \<^verbatim>\<open>KeyboardInterrupt\<close> raised while the engine is awaited is an
  exception but no \<^verbatim>\<open>Exception\<close>; \<^verbatim>\<open>run_prediction\<close> lets it pass and logs nothing.
\<close>

theorem run_prediction_interrupt_counterexample:
  "run_prediction interrupted_engine (PyStr ''Paul Skenes'') (PyStr ''PHI'') (PyStr []) =
     ([EngineCall (PyStr ''Paul Skenes'') (PyStr ''PHI'') (PyStr [])],
      Raises (Raised KeyboardInterrupt []))"
  by (simp add: run_prediction_def interrupted_engine_def)

text \<open>
  C1, amended: for every exception of class \<^verbatim>\<open>Exception\<close> that the awaited engine call
  raises, \<^verbatim>\<open>run_prediction\<close> returns \<^verbatim>\<open>None\<close> and raises nothing, and it logs exactly one
  record, an error whose text ends with the exception's message; under either logging
  configuration of \<^verbatim>\<open>main\<close> that is the one line \<^verbatim>\<open>ERROR: Prediction failed: <message>\<close>.
\<close>

theorem run_prediction_contains_Exception:
  assumes "engine pitcher opponent park = Raises e"
    and "is_Exception (exc_cls e)"
  shows "run_prediction engine pitcher opponent park =
           ([EngineCall pitcher opponent park, Log ERROR (''Prediction failed: '' @ exc_str e)],
            Returns None)
         \<and> suffix (exc_str e) (''Prediction failed: '' @ exc_str e)
         \<and> log_output (BasicConfig DEBUG # fst (run_prediction engine pitcher opponent park)) =
             [''ERROR: Prediction failed: '' @ exc_str e]
         \<and> log_output (BasicConfig INFO # fst (run_prediction engine pitcher opponent park)) =
             [''ERROR: Prediction failed: '' @ exc_str e]"
  using assms by (simp add: run_prediction_def log_output_def suffix_def)

text \<open>The engine fails with the message \<^verbatim>\<open>network timeout\<close>.\<close>

theorem run_prediction_contains_Exception_witness:
  "timeout_engine (PyStr ''Paul Skenes'') (PyStr ''PHI'') (PyStr []) =
     Raises (Raised (UserException ''TimeoutError'') ''network timeout'')
   \<and> is_Exception (UserException ''TimeoutError'')
   \<and> run_prediction timeout_engine (PyStr ''Paul Skenes'') (PyStr ''PHI'') (PyStr []) =
       ([EngineCall (PyStr ''Paul Skenes'') (PyStr ''PHI'') (PyStr []),
         Log ERROR ''Prediction failed: network timeout''], Returns None)
   \<and> log_output (BasicConfig INFO #
         fst (run_prediction timeout_engine (PyStr ''Paul Skenes'') (PyStr ''PHI'') (PyStr []))) =
       [''ERROR: Prediction failed: network timeout'']"
  using run_prediction_contains_Exception
    [of timeout_engine "PyStr ''Paul Skenes''" "PyStr ''PHI''" "PyStr []"
        "Raised (UserException ''TimeoutError'') ''network timeout''"]
  by (simp add: timeout_engine_def log_output_def)

text \<open>
  C10: an exception that the awaited engine call raises and that is no \<^verbatim>\<open>Exception\<close>
  (\<^verbatim>\<open>KeyboardInterrupt\<close>, \<^verbatim>\<open>CancelledError\<close>, \<^verbatim>\<open>SystemExit\<close>, ...) leaves \<^verbatim>\<open>run_prediction\<close>
  as it is, with nothing logged, and leaves \<^verbatim>\<open>main\<close> as well. Only the top level deals
  with it: \<^verbatim>\<open>KeyboardInterrupt\<close> gets the cancellation notice of the script body, and so
  does the cancellation by which \<^verbatim>\<open>asyncio.run\<close> answers a Ctrl-C, which \<^verbatim>\<open>asyncio.run\<close>
  raises as \<^verbatim>\<open>KeyboardInterrupt\<close>; the others are caught by neither clause (\<^verbatim>\<open>SystemExit\<close>
  ends the process with the status of its code, any other gets the interpreter's
  traceback and status 1).
\<close>

theorem run_prediction_propagates_BaseException:
  assumes "engine pitcher opponent park = Raises e"
    and "\<not> is_Exception (exc_cls e)"
  shows "run_prediction engine pitcher opponent park = ([EngineCall pitcher opponent park], Raises e)
    \<and> (parse_args setup_parser argv = Parsed ns
         \<and> fmlookup ns ''pitcher'' = Some pitcher \<and> fmlookup ns ''opponent'' = Some opponent
         \<and> fmlookup ns ''park'' = Some park \<and> fmlookup ns ''debug'' = Some debug
       \<longrightarrow> main engine argv =
             ([BasicConfig (if truthy debug then DEBUG else INFO),
               EngineCall pitcher opponent park], Raises e)
           \<and> script engine argv =
             (if exc_cls e = KeyboardInterrupt \<or> exc_cls e = CancelledError True
              then ([BasicConfig (if truthy debug then DEBUG else INFO),
                     EngineCall pitcher opponent park,
                     Print (newline @ ''Operation cancelled by user'')], Some 0)
              else case exc_cls e of
                     SystemExit code \<Rightarrow>
                       ([BasicConfig (if truthy debug then DEBUG else INFO),
                         EngineCall pitcher opponent park], Some (process_status code))
                   | _ \<Rightarrow>
                       ([BasicConfig (if truthy debug then DEBUG else INFO),
                         EngineCall pitcher opponent park, Traceback e], Some 1)))"
proof -
  have run: "run_prediction engine pitcher opponent park = ([EngineCall pitcher opponent park], Raises e)"
    using assms by (simp add: run_prediction_def)
  have top: "main engine argv =
             ([BasicConfig (if truthy debug then DEBUG else INFO),
               EngineCall pitcher opponent park], Raises e)
           \<and> script engine argv =
             (if exc_cls e = KeyboardInterrupt \<or> exc_cls e = CancelledError True
              then ([BasicConfig (if truthy debug then DEBUG else INFO),
                     EngineCall pitcher opponent park,
                     Print (newline @ ''Operation cancelled by user'')], Some 0)
              else case exc_cls e of
                     SystemExit code \<Rightarrow>
                       ([BasicConfig (if truthy debug then DEBUG else INFO),
                         EngineCall pitcher opponent park], Some (process_status code))
                   | _ \<Rightarrow>
                       ([BasicConfig (if truthy debug then DEBUG else INFO),
                         EngineCall pitcher opponent park, Traceback e], Some 1))"
    if parsed: "parse_args setup_parser argv = Parsed ns"
      and vals: "fmlookup ns ''pitcher'' = Some pitcher" "fmlookup ns ''opponent'' = Some opponent"
        "fmlookup ns ''park'' = Some park" "fmlookup ns ''debug'' = Some debug"
  proof -
    have main: "main engine argv =
             ([BasicConfig (if truthy debug then DEBUG else INFO),
               EngineCall pitcher opponent park], Raises e)"
      using main_after_parse [OF parsed vals, of engine] run by simp
    show ?thesis
      using main script_Raises [OF main] assms(2) by (simp split: exc_class.splits)
  qed
  from run top show ?thesis by blast
qed

text \<open>
  A \<^verbatim>\<open>KeyboardInterrupt\<close>, a Ctrl-C while the engine is waiting, and a cancellation that the
  engine raises of its own.
\<close>

theorem run_prediction_propagates_BaseException_witness:
  "interrupted_engine (PyStr ''Paul Skenes'') (PyStr ''PHI'') (PyStr []) = Raises (Raised KeyboardInterrupt [])
   \<and> \<not> is_Exception KeyboardInterrupt
   \<and> run_prediction interrupted_engine (PyStr ''Paul Skenes'') (PyStr ''PHI'') (PyStr []) =
       ([EngineCall (PyStr ''Paul Skenes'') (PyStr ''PHI'') (PyStr [])], Raises (Raised KeyboardInterrupt []))
   \<and> script interrupted_engine skenes_argv =
       ([BasicConfig INFO, EngineCall (PyStr ''Paul Skenes'') (PyStr ''PHI'') (PyStr []),
         Print (newline @ ''Operation cancelled by user'')], Some 0)
   \<and> ctrl_c_engine (PyStr ''Paul Skenes'') (PyStr ''PHI'') (PyStr []) =
       Raises (Raised (CancelledError True) [])
   \<and> \<not> is_Exception (CancelledError True)
   \<and> run_prediction ctrl_c_engine (PyStr ''Paul Skenes'') (PyStr ''PHI'') (PyStr []) =
       ([EngineCall (PyStr ''Paul Skenes'') (PyStr ''PHI'') (PyStr [])],
        Raises (Raised (CancelledError True) []))
   \<and> script ctrl_c_engine skenes_argv =
       ([BasicConfig INFO, EngineCall (PyStr ''Paul Skenes'') (PyStr ''PHI'') (PyStr []),
         Print (newline @ ''Operation cancelled by user'')], Some 0)
   \<and> cancelled_engine (PyStr ''Paul Skenes'') (PyStr ''PHI'') (PyStr []) =
       Raises (Raised (CancelledError False) [])
   \<and> \<not> is_Exception (CancelledError False)
   \<and> script cancelled_engine skenes_argv =
       ([BasicConfig INFO, EngineCall (PyStr ''Paul Skenes'') (PyStr ''PHI'') (PyStr []),
         Traceback (Raised (CancelledError False) [])], Some 1)"
proof -
  obtain ns where ns: "parse_args setup_parser skenes_argv = Parsed ns"
    "fmlookup ns ''pitcher'' = Some (PyStr ''Paul Skenes'')"
    "fmlookup ns ''opponent'' = Some (PyStr ''PHI'')"
    "fmlookup ns ''park'' = Some (PyStr [])"
    "fmlookup ns ''debug'' = Some (PyBool False)"
    using skenes_argv_lookups by blast
  have i: "interrupted_engine (PyStr ''Paul Skenes'') (PyStr ''PHI'') (PyStr []) = Raises (Raised KeyboardInterrupt [])"
    by (simp add: interrupted_engine_def)
  have k: "ctrl_c_engine (PyStr ''Paul Skenes'') (PyStr ''PHI'') (PyStr []) = Raises (Raised (CancelledError True) [])"
    by (simp add: ctrl_c_engine_def)
  have c: "cancelled_engine (PyStr ''Paul Skenes'') (PyStr ''PHI'') (PyStr []) = Raises (Raised (CancelledError False) [])"
    by (simp add: cancelled_engine_def)
  show ?thesis
    using run_prediction_propagates_BaseException
      [of interrupted_engine "PyStr ''Paul Skenes''" "PyStr ''PHI''" "PyStr []"
          "Raised KeyboardInterrupt []" skenes_argv ns "PyBool False"]
      run_prediction_propagates_BaseException
      [of ctrl_c_engine "PyStr ''Paul Skenes''" "PyStr ''PHI''" "PyStr []"
          "Raised (CancelledError True) []" skenes_argv ns "PyBool False"]
      run_prediction_propagates_BaseException
      [of cancelled_engine "PyStr ''Paul Skenes''" "PyStr ''PHI''" "PyStr []"
          "Raised (CancelledError False) []" skenes_argv ns "PyBool False"]
      i k c ns
    by simp
qed

subsection \<open>Required options and defaults\<close>

text \<open>
  C7: every command line that \<^verbatim>\<open>parse_args\<close> accepts names the sub-command \<^verbatim>\<open>predict\<close> and
  gives both \<^verbatim>\<open>--pitcher\<close> and \<^verbatim>\<open>--opponent\<close>, so a command line that lacks one of them is
  refused; the namespace holds a value, other than \<^verbatim>\<open>None\<close>, for each of the two. When no
  argument gives \<^verbatim>\<open>--park\<close>, \<^verbatim>\<open>park\<close> is the empty string; \<^verbatim>\<open>debug\<close> is a bool, \<^verbatim>\<open>False\<close> when
  no argument gives \<^verbatim>\<open>--debug\<close>. The values of \<^verbatim>\<open>pitcher\<close>, \<^verbatim>\<open>opponent\<close> and \<^verbatim>\<open>park\<close> are strings;
  this is stated of the command lines without an explicit value \<^verbatim>\<open>--\<close>, on which the
  releases of \<^verbatim>\<open>argparse\<close> do not agree.
\<close>

theorem predict_required_and_defaults:
  assumes "parse_args setup_parser argv = Parsed ns"
  shows "fmlookup ns ''command'' = Some (PyStr ''predict'')
     \<and> gives ''--pitcher'' argv \<and> gives ''--opponent'' argv
     \<and> (\<exists>pitcher opponent park debug.
          fmlookup ns ''pitcher'' = Some pitcher \<and> pitcher \<noteq> PyNone
          \<and> fmlookup ns ''opponent'' = Some opponent \<and> opponent \<noteq> PyNone
          \<and> fmlookup ns ''park'' = Some park
          \<and> fmlookup ns ''debug'' = Some (PyBool debug)
          \<and> (\<not> list_ex explicit_dashes argv \<longrightarrow>
                (\<exists>p q k. pitcher = PyStr p \<and> opponent = PyStr q \<and> park = PyStr k))
          \<and> (\<not> gives ''--park'' argv \<longrightarrow> park = PyStr [])
          \<and> (\<not> gives ''--debug'' argv \<longrightarrow> debug = False))"
proof -
  from parse_args_Parsed [OF assms] obtain p q k b where
    "fmlookup ns ''command'' = Some (PyStr ''predict'')"
    "fmlookup ns ''pitcher'' = Some (PyStr p)" "fmlookup ns ''opponent'' = Some (PyStr q)"
    "fmlookup ns ''park'' = Some (PyStr k)" "fmlookup ns ''debug'' = Some (PyBool b)"
    "gives ''--pitcher'' argv" "gives ''--opponent'' argv"
    "\<not> gives ''--park'' argv \<longrightarrow> k = []" "\<not> gives ''--debug'' argv \<longrightarrow> b = False"
    by blast
  then show ?thesis by simp
qed

lemma gives_skenes_argv:
  "gives ''--pitcher'' skenes_argv" "gives ''--opponent'' skenes_argv"
  "\<not> gives ''--park'' skenes_argv" "\<not> gives ''--debug'' skenes_argv"
  by (simp_all add: gives_def skenes_argv_def parse_eval)

lemma no_explicit_dashes:
  "\<not> list_ex explicit_dashes skenes_argv" "\<not> list_ex explicit_dashes arabic_argv"
  by (simp_all add: explicit_dashes_def partition_eq_def skenes_argv_def arabic_argv_def)

text \<open>
  The command lines \<^verbatim>\<open>predict --pitcher "Paul Skenes" --opponent PHI\<close> and
  \<^verbatim>\<open>predict --pitcher -<U+0663> --opponent PHI\<close>.
\<close>

theorem predict_required_and_defaults_witness:
  "(\<exists>ns. parse_args setup_parser skenes_argv = Parsed ns
     \<and> fmlookup ns ''command'' = Some (PyStr ''predict'')
     \<and> fmlookup ns ''pitcher'' = Some (PyStr ''Paul Skenes'')
     \<and> fmlookup ns ''opponent'' = Some (PyStr ''PHI'')
     \<and> gives ''--pitcher'' skenes_argv \<and> gives ''--opponent'' skenes_argv
     \<and> \<not> list_ex explicit_dashes skenes_argv
     \<and> \<not> gives ''--park'' skenes_argv \<and> fmlookup ns ''park'' = Some (PyStr [])
     \<and> \<not> gives ''--debug'' skenes_argv \<and> fmlookup ns ''debug'' = Some (PyBool False))
   \<and> (\<exists>ns. parse_args setup_parser arabic_argv = Parsed ns
     \<and> fmlookup ns ''pitcher'' = Some (PyStr [CHR ''-'', CHR 0xD9, CHR 0xA3])
     \<and> gives ''--pitcher'' arabic_argv \<and> gives ''--opponent'' arabic_argv)"
proof -
  obtain ns where ns: "parse_args setup_parser skenes_argv = Parsed ns"
    "fmlookup ns ''pitcher'' = Some (PyStr ''Paul Skenes'')"
    "fmlookup ns ''opponent'' = Some (PyStr ''PHI'')"
    using skenes_argv_lookups by blast
  from predict_required_and_defaults [OF ns(1)] gives_skenes_argv(3,4)
  have "fmlookup ns ''command'' = Some (PyStr ''predict'')"
    "fmlookup ns ''park'' = Some (PyStr [])" "fmlookup ns ''debug'' = Some (PyBool False)"
    by auto
  with ns gives_skenes_argv no_explicit_dashes(1)
  have first: "\<exists>ns. parse_args setup_parser skenes_argv = Parsed ns
     \<and> fmlookup ns ''command'' = Some (PyStr ''predict'')
     \<and> fmlookup ns ''pitcher'' = Some (PyStr ''Paul Skenes'')
     \<and> fmlookup ns ''opponent'' = Some (PyStr ''PHI'')
     \<and> gives ''--pitcher'' skenes_argv \<and> gives ''--opponent'' skenes_argv
     \<and> \<not> list_ex explicit_dashes skenes_argv
     \<and> \<not> gives ''--park'' skenes_argv \<and> fmlookup ns ''park'' = Some (PyStr [])
     \<and> \<not> gives ''--debug'' skenes_argv \<and> fmlookup ns ''debug'' = Some (PyBool False)"
    by blast
  obtain ns' where ns': "parse_args setup_parser arabic_argv = Parsed ns'"
    "fmlookup ns' ''pitcher'' = Some (PyStr [CHR ''-'', CHR 0xD9, CHR 0xA3])"
    by (simp add: parse_arabic_argv)
  from predict_required_and_defaults [OF ns'(1)]
  have "gives ''--pitcher'' arabic_argv" "gives ''--opponent'' arabic_argv" by auto
  with ns' have "\<exists>ns. parse_args setup_parser arabic_argv = Parsed ns
     \<and> fmlookup ns ''pitcher'' = Some (PyStr [CHR ''-'', CHR 0xD9, CHR 0xA3])
     \<and> gives ''--pitcher'' arabic_argv \<and> gives ''--opponent'' arabic_argv"
    by blast
  with first show ?thesis by blast
qed

subsection \<open>A missing required option\<close>

lemma script_HelpExit:
  "parse_args setup_parser argv = HelpExit \<Longrightarrow> script engine argv = ([ParserHelp], Some 0)"
  by (simp add: script_def asyncio_run_def main_def process_status_def)

lemma script_UsageError:
  "parse_args setup_parser argv = UsageError err \<Longrightarrow> script engine argv = ([ParserError err], Some 2)"
  by (simp add: script_def asyncio_run_def main_def process_status_def)

text \<open>
  C5, as stated, fails: \<^verbatim>\<open>predict --help\<close> gives neither required option, and the parser
  prints the help and leaves with status 0.
\<close>

theorem missing_required_help_counterexample:
  "\<not> gives ''--pitcher'' [''predict'', ''--help'']
   \<and> \<not> gives ''--opponent'' [''predict'', ''--help'']
   \<and> script skenes_engine [''predict'', ''--help''] = ([ParserHelp], Some 0)"
  by (simp add: script_HelpExit parse_help) (simp add: gives_def parse_eval)

text \<open>
  C5, amended: for every command line that does not give \<^verbatim>\<open>--pitcher\<close> or does not give
  \<^verbatim>\<open>--opponent\<close>, the process ends inside \<^verbatim>\<open>parse_args\<close>, before the asynchronous flow
  starts: its only action is the parser's message, so logging is not configured and the
  engine is not called. The exit status is 2, that of a usage error, unless the parser
  meets a help flag first, where it is 0; it is 2 whenever no argument is a help flag.
\<close>

theorem missing_required_exits_before_async:
  assumes "\<not> gives ''--pitcher'' argv \<or> \<not> gives ''--opponent'' argv"
  shows "(script engine argv = ([ParserHelp], Some 0)
          \<or> (\<exists>err. script engine argv = ([ParserError err], Some 2)))
       \<and> (\<not> list_ex help_token argv \<longrightarrow> (\<exists>err. script engine argv = ([ParserError err], Some 2)))"
proof (cases "parse_args setup_parser argv")
  case (Parsed ns)
  from parse_args_Parsed [OF this] have "gives ''--pitcher'' argv \<and> gives ''--opponent'' argv"
    by blast
  with assms show ?thesis by blast
next
  case HelpExit
  then have "list_ex help_token argv"
    unfolding parse_args_def by (rule parse_command_help)
  with HelpExit show ?thesis by (simp add: script_HelpExit)
next
  case (UsageError err)
  then show ?thesis by (simp add: script_UsageError)
qed

lemma no_help_token: "\<not> list_ex help_token [''predict'', ''--opponent'', ''PHI'']"
  by (simp add: help_token_def partition_eq_def)

text \<open>The command line \<^verbatim>\<open>predict --opponent PHI\<close>.\<close>

theorem missing_required_exits_before_async_witness:
  "\<not> gives ''--pitcher'' [''predict'', ''--opponent'', ''PHI'']
   \<and> \<not> list_ex help_token [''predict'', ''--opponent'', ''PHI'']
   \<and> script skenes_engine [''predict'', ''--opponent'', ''PHI''] =
       ([ParserError (MissingRequired [''--pitcher''])], Some 2)"
  using missing_required_exits_before_async [of "[''predict'', ''--opponent'', ''PHI'']" skenes_engine]
    not_gives no_help_token
  by (simp add: script_UsageError parse_no_pitcher)

subsection \<open>The exit status\<close>

lemma main_skenes_argv:
  "main engine skenes_argv =
     (case run_prediction engine (PyStr ''Paul Skenes'') (PyStr ''PHI'') (PyStr []) of
        (called, Raises ex) \<Rightarrow> (BasicConfig INFO # called, Raises ex)
      | (called, Never) \<Rightarrow> (BasicConfig INFO # called, Never)
      | (called, Returns result) \<Rightarrow>
          (case format_result result of
             Inl ex \<Rightarrow> (BasicConfig INFO # called, Raises ex)
           | Inr text \<Rightarrow> (BasicConfig INFO # called @ [Print text], Returns ())))"
proof -
  obtain ns where ns: "parse_args setup_parser skenes_argv = Parsed ns"
    "fmlookup ns ''pitcher'' = Some (PyStr ''Paul Skenes'')"
    "fmlookup ns ''opponent'' = Some (PyStr ''PHI'')"
    "fmlookup ns ''park'' = Some (PyStr [])"
    "fmlookup ns ''debug'' = Some (PyBool False)"
    using skenes_argv_lookups by blast
  show ?thesis using main_after_parse [OF ns, of engine] by simp
qed

lemma main_usage_error:
  "parse_args setup_parser argv = UsageError err \<Longrightarrow>
     main engine argv = ([ParserError err], Raises (Raised (SystemExit 2) ''2''))"
  by (simp add: main_def)

text \<open>
  C6, as stated, fails for the exceptions that are no \<^verbatim>\<open>Exception\<close>: a cancellation that the
  engine raises of its own reaches the interpreter, which prints a traceback and exits
  with status 1, and nothing is logged as fatal; the \<^verbatim>\<open>SystemExit\<close> of a usage error ends
  the process with status 2, and nothing is logged either.
\<close>

theorem exit_status_counterexample:
  "script cancelled_engine skenes_argv =
     ([BasicConfig INFO, EngineCall (PyStr ''Paul Skenes'') (PyStr ''PHI'') (PyStr []),
       Traceback (Raised (CancelledError False) [])], Some 1)
   \<and> script skenes_engine [] = ([ParserError (MissingRequired [''command''])], Some 2)"
proof -
  have "main cancelled_engine skenes_argv =
     ([BasicConfig INFO, EngineCall (PyStr ''Paul Skenes'') (PyStr ''PHI'') (PyStr [])],
      Raises (Raised (CancelledError False) []))"
    by (simp add: main_skenes_argv run_prediction_def cancelled_engine_def)
  then have "script cancelled_engine skenes_argv =
     ([BasicConfig INFO, EngineCall (PyStr ''Paul Skenes'') (PyStr ''PHI'') (PyStr []),
       Traceback (Raised (CancelledError False) [])], Some 1)"
    by (simp add: script_Raises)
  moreover have "script skenes_engine [] = ([ParserError (MissingRequired [''command''])], Some 2)"
    by (simp add: script_UsageError parse_empty)
  ultimately show ?thesis by simp
qed

text \<open>
  C6, amended: the exit status is 0 when \<^verbatim>\<open>main\<close> returns, which includes an absent
  projection (the engine returned \<^verbatim>\<open>None\<close>, or raised an \<^verbatim>\<open>Exception\<close> that \<^verbatim>\<open>run_prediction\<close>
  contained), then printed as the warning; an exception of class \<^verbatim>\<open>Exception\<close> that leaves
  \<^verbatim>\<open>main\<close> is logged as \<^verbatim>\<open>Fatal error: <message>\<close> and the status is 1; a user interrupt,
  which reaches the script body as \<^verbatim>\<open>KeyboardInterrupt\<close> (raised as such, or put by
  \<^verbatim>\<open>asyncio.run\<close> in the place of the cancellation with which it answers Ctrl-C), prints
  the cancellation notice and the script ends with status 0. The other exceptions are
  caught by neither clause: \<^verbatim>\<open>SystemExit\<close> ends the process with the status of its code (2
  for the usage error and 0 for the help of \<^verbatim>\<open>argparse\<close>) and nothing is logged or printed
  by the script; any other one is reported by the interpreter's traceback, with status 1.
\<close>

theorem exit_status:
  "(main engine argv = (acts, Returns ()) \<longrightarrow> script engine argv = (acts, Some 0))
   \<and> (parse_args setup_parser argv = Parsed ns
        \<and> fmlookup ns ''pitcher'' = Some pitcher \<and> fmlookup ns ''opponent'' = Some opponent
        \<and> fmlookup ns ''park'' = Some park \<and> fmlookup ns ''debug'' = Some debug
        \<and> run_prediction engine pitcher opponent park = (called, Returns None)
      \<longrightarrow> script engine argv =
            (BasicConfig (if truthy debug then DEBUG else INFO) # called @ [Print no_projection],
             Some 0))
   \<and> (main engine argv = (acts, Raises ex) \<and> is_Exception (exc_cls ex)
      \<longrightarrow> script engine argv = (acts @ [Log ERROR (''Fatal error: '' @ exc_str ex)], Some 1))
   \<and> (main engine argv = (acts, Raises ex)
        \<and> (exc_cls ex = KeyboardInterrupt \<or> exc_cls ex = CancelledError True)
      \<longrightarrow> script engine argv =
            (acts @ [Print (newline @ ''Operation cancelled by user'')], Some 0))
   \<and> (main engine argv = (acts, Raises ex) \<and> exc_cls ex = SystemExit code
      \<longrightarrow> script engine argv = (acts, Some (process_status code)))
   \<and> (parse_args setup_parser argv = UsageError err
      \<longrightarrow> script engine argv = ([ParserError err], Some 2))
   \<and> (parse_args setup_parser argv = HelpExit
      \<longrightarrow> script engine argv = ([ParserHelp], Some 0))
   \<and> (main engine argv = (acts, Raises ex) \<and> \<not> is_Exception (exc_cls ex)
        \<and> exc_cls ex \<noteq> KeyboardInterrupt \<and> exc_cls ex \<noteq> CancelledError True
        \<and> (\<forall>c. exc_cls ex \<noteq> SystemExit c)
      \<longrightarrow> script engine argv = (acts @ [Traceback ex], Some 1))"
proof -
  have null: "script engine argv =
            (BasicConfig (if truthy debug then DEBUG else INFO) # called @ [Print no_projection],
             Some 0)"
    if parsed: "parse_args setup_parser argv = Parsed ns"
      and vals: "fmlookup ns ''pitcher'' = Some pitcher" "fmlookup ns ''opponent'' = Some opponent"
        "fmlookup ns ''park'' = Some park" "fmlookup ns ''debug'' = Some debug"
      and run: "run_prediction engine pitcher opponent park = (called, Returns None)"
  proof -
    have "main engine argv =
       (BasicConfig (if truthy debug then DEBUG else INFO) # called @ [Print no_projection],
        Returns ())"
      using main_after_parse [OF parsed vals, of engine] run
      by (simp add: format_result_def)
    then show ?thesis by (rule script_Returns)
  qed
  have fatal: "script engine argv = (acts @ [Log ERROR (''Fatal error: '' @ exc_str ex)], Some 1)"
    if "main engine argv = (acts, Raises ex)" "is_Exception (exc_cls ex)"
    using script_Raises [OF that(1)] that(2) by auto
  have interrupt: "script engine argv =
            (acts @ [Print (newline @ ''Operation cancelled by user'')], Some 0)"
    if "main engine argv = (acts, Raises ex)"
      "exc_cls ex = KeyboardInterrupt \<or> exc_cls ex = CancelledError True"
    using script_Raises [OF that(1)] that(2) by auto
  have exits: "script engine argv = (acts, Some (process_status code))"
    if "main engine argv = (acts, Raises ex)" "exc_cls ex = SystemExit code"
    using script_Raises [OF that(1)] that(2) by simp
  have other: "script engine argv = (acts @ [Traceback ex], Some 1)"
    if "main engine argv = (acts, Raises ex)" "\<not> is_Exception (exc_cls ex)"
      "exc_cls ex \<noteq> KeyboardInterrupt" "exc_cls ex \<noteq> CancelledError True"
      "\<forall>c. exc_cls ex \<noteq> SystemExit c"
    using script_Raises [OF that(1)] that(2-5) by (simp split: exc_class.splits)
  have normal: "script engine argv = (acts, Some 0)" if "main engine argv = (acts, Returns ())"
    using that by (rule script_Returns)
  have usage: "script engine argv = ([ParserError err], Some 2)"
    if "parse_args setup_parser argv = UsageError err"
    using that by (rule script_UsageError)
  have helped: "script engine argv = ([ParserHelp], Some 0)"
    if "parse_args setup_parser argv = HelpExit"
    using that by (rule script_HelpExit)
  from normal null fatal interrupt exits usage helped other show ?thesis by blast
qed

text \<open>
  Runs of \<^verbatim>\<open>predict --pitcher "Paul Skenes" --opponent PHI\<close>: the engine returns the
  scenario result; it fails with \<^verbatim>\<open>network timeout\<close>; it returns a result without
  \<^verbatim>\<open>pitcher\<close>; it ends with \<^verbatim>\<open>KeyboardInterrupt\<close>; the user presses Ctrl-C while it is
  waiting; it raises a cancellation of its own. And a run without arguments.
\<close>

theorem exit_status_witness:
  "script skenes_engine skenes_argv =
     ([BasicConfig INFO, EngineCall (PyStr ''Paul Skenes'') (PyStr ''PHI'') (PyStr []),
       Print ''\<newline>=== Paul Skenes vs PHI ===\<newline>Projected Ks: 7.3\<newline>Vegas Line: N/A\<newline>Edge: N/A\<newline>Over 6.5 Probability: 0.0%\<newline>Key Stats: Lineup source unknown''],
      Some 0)
   \<and> script timeout_engine skenes_argv =
     ([BasicConfig INFO, EngineCall (PyStr ''Paul Skenes'') (PyStr ''PHI'') (PyStr []),
       Log ERROR ''Prediction failed: network timeout'', Print no_projection], Some 0)
   \<and> script malformed_engine skenes_argv =
     ([BasicConfig INFO, EngineCall (PyStr ''Paul Skenes'') (PyStr ''PHI'') (PyStr [])]
       @ [Log ERROR (''Fatal error: '' @ [CHR 0x27] @ ''pitcher'' @ [CHR 0x27])], Some 1)
   \<and> script interrupted_engine skenes_argv =
     ([BasicConfig INFO, EngineCall (PyStr ''Paul Skenes'') (PyStr ''PHI'') (PyStr [])]
       @ [Print (newline @ ''Operation cancelled by user'')], Some 0)
   \<and> script ctrl_c_engine skenes_argv =
     ([BasicConfig INFO, EngineCall (PyStr ''Paul Skenes'') (PyStr ''PHI'') (PyStr [])]
       @ [Print (newline @ ''Operation cancelled by user'')], Some 0)
   \<and> script cancelled_engine skenes_argv =
     ([BasicConfig INFO, EngineCall (PyStr ''Paul Skenes'') (PyStr ''PHI'') (PyStr [])]
       @ [Traceback (Raised (CancelledError False) [])], Some 1)
   \<and> main skenes_engine [] =
     ([ParserError (MissingRequired [''command''])], Raises (Raised (SystemExit 2) ''2''))
   \<and> script skenes_engine [] = ([ParserError (MissingRequired [''command''])], Some 2)
   \<and> script skenes_engine [''predict'', ''--help''] = ([ParserHelp], Some 0)"
proof -
  obtain ns where ns: "parse_args setup_parser skenes_argv = Parsed ns"
    "fmlookup ns ''pitcher'' = Some (PyStr ''Paul Skenes'')"
    "fmlookup ns ''opponent'' = Some (PyStr ''PHI'')"
    "fmlookup ns ''park'' = Some (PyStr [])"
    "fmlookup ns ''debug'' = Some (PyBool False)"
    using skenes_argv_lookups by blast
  have m1: "main skenes_engine skenes_argv =
     ([BasicConfig INFO, EngineCall (PyStr ''Paul Skenes'') (PyStr ''PHI'') (PyStr []),
       Print ''\<newline>=== Paul Skenes vs PHI ===\<newline>Projected Ks: 7.3\<newline>Vegas Line: N/A\<newline>Edge: N/A\<newline>Over 6.5 Probability: 0.0%\<newline>Key Stats: Lineup source unknown''],
      Returns ())"
    by (simp add: main_skenes_argv run_prediction_def skenes_engine_def format_result_skenes_text)
  have r2: "run_prediction timeout_engine (PyStr ''Paul Skenes'') (PyStr ''PHI'') (PyStr []) =
     ([EngineCall (PyStr ''Paul Skenes'') (PyStr ''PHI'') (PyStr []),
       Log ERROR ''Prediction failed: network timeout''], Returns None)"
    by (simp add: run_prediction_def timeout_engine_def)
  have m3: "main malformed_engine skenes_argv =
     ([BasicConfig INFO, EngineCall (PyStr ''Paul Skenes'') (PyStr ''PHI'') (PyStr [])],
      Raises (Raised KeyError ([CHR 0x27] @ ''pitcher'' @ [CHR 0x27])))"
    by (simp add: main_skenes_argv run_prediction_def malformed_engine_def format_result_def
        getitem_def key_repr_def)
  have m4: "main interrupted_engine skenes_argv =
     ([BasicConfig INFO, EngineCall (PyStr ''Paul Skenes'') (PyStr ''PHI'') (PyStr [])],
      Raises (Raised KeyboardInterrupt []))"
    by (simp add: main_skenes_argv run_prediction_def interrupted_engine_def)
  have m5: "main ctrl_c_engine skenes_argv =
     ([BasicConfig INFO, EngineCall (PyStr ''Paul Skenes'') (PyStr ''PHI'') (PyStr [])],
      Raises (Raised (CancelledError True) []))"
    by (simp add: main_skenes_argv run_prediction_def ctrl_c_engine_def)
  have m6: "main cancelled_engine skenes_argv =
     ([BasicConfig INFO, EngineCall (PyStr ''Paul Skenes'') (PyStr ''PHI'') (PyStr [])],
      Raises (Raised (CancelledError False) []))"
    by (simp add: main_skenes_argv run_prediction_def cancelled_engine_def)
  have m7: "main skenes_engine [] =
     ([ParserError (MissingRequired [''command''])], Raises (Raised (SystemExit 2) ''2''))"
    by (simp add: main_usage_error parse_empty)
  have s1: "script skenes_engine skenes_argv =
     ([BasicConfig INFO, EngineCall (PyStr ''Paul Skenes'') (PyStr ''PHI'') (PyStr []),
       Print ''\<newline>=== Paul Skenes vs PHI ===\<newline>Projected Ks: 7.3\<newline>Vegas Line: N/A\<newline>Edge: N/A\<newline>Over 6.5 Probability: 0.0%\<newline>Key Stats: Lineup source unknown''],
      Some 0)"
    using exit_status [of skenes_engine skenes_argv _ ns "PyStr ''Paul Skenes''" "PyStr ''PHI''"
        "PyStr []" "PyBool False" "[]" "Raised KeyError []" 0 "MissingRequired []"] m1
    by simp
  have s2: "script timeout_engine skenes_argv =
     ([BasicConfig INFO, EngineCall (PyStr ''Paul Skenes'') (PyStr ''PHI'') (PyStr []),
       Log ERROR ''Prediction failed: network timeout'', Print no_projection], Some 0)"
    using exit_status [of timeout_engine skenes_argv "[]" ns "PyStr ''Paul Skenes''" "PyStr ''PHI''"
        "PyStr []" "PyBool False"
        "[EngineCall (PyStr ''Paul Skenes'') (PyStr ''PHI'') (PyStr []),
          Log ERROR ''Prediction failed: network timeout'']" "Raised KeyError []" 0
        "MissingRequired []"] r2 ns
    by simp
  have s3: "script malformed_engine skenes_argv =
     ([BasicConfig INFO, EngineCall (PyStr ''Paul Skenes'') (PyStr ''PHI'') (PyStr [])]
       @ [Log ERROR (''Fatal error: '' @ [CHR 0x27] @ ''pitcher'' @ [CHR 0x27])], Some 1)"
    using exit_status [of malformed_engine skenes_argv _ ns "PyStr ''Paul Skenes''" "PyStr ''PHI''"
        "PyStr []" "PyBool False" "[]" "Raised KeyError ([CHR 0x27] @ ''pitcher'' @ [CHR 0x27])" 0
        "MissingRequired []"] m3
    by simp
  have s4: "script interrupted_engine skenes_argv =
     ([BasicConfig INFO, EngineCall (PyStr ''Paul Skenes'') (PyStr ''PHI'') (PyStr [])]
       @ [Print (newline @ ''Operation cancelled by user'')], Some 0)"
    using exit_status [of interrupted_engine skenes_argv _ ns "PyStr ''Paul Skenes''" "PyStr ''PHI''"
        "PyStr []" "PyBool False" "[]" "Raised KeyboardInterrupt []" 0 "MissingRequired []"] m4
    by simp
  have s5: "script ctrl_c_engine skenes_argv =
     ([BasicConfig INFO, EngineCall (PyStr ''Paul Skenes'') (PyStr ''PHI'') (PyStr [])]
       @ [Print (newline @ ''Operation cancelled by user'')], Some 0)"
    using exit_status [of ctrl_c_engine skenes_argv _ ns "PyStr ''Paul Skenes''" "PyStr ''PHI''"
        "PyStr []" "PyBool False" "[]" "Raised (CancelledError True) []" 0 "MissingRequired []"] m5
    by simp
  have s6: "script cancelled_engine skenes_argv =
     ([BasicConfig INFO, EngineCall (PyStr ''Paul Skenes'') (PyStr ''PHI'') (PyStr [])]
       @ [Traceback (Raised (CancelledError False) [])], Some 1)"
    using exit_status [of cancelled_engine skenes_argv _ ns "PyStr ''Paul Skenes''" "PyStr ''PHI''"
        "PyStr []" "PyBool False" "[]" "Raised (CancelledError False) []" 0 "MissingRequired []"] m6
    by simp
  have s7: "script skenes_engine [] = ([ParserError (MissingRequired [''command''])], Some 2)"
    using exit_status [of skenes_engine "[]" _ ns "PyStr ''Paul Skenes''" "PyStr ''PHI''"
        "PyStr []" "PyBool False" "[]" "Raised (SystemExit 2) ''2''" 2
        "MissingRequired [''command'']"] m7 parse_empty
    by (simp add: process_status_small)
  have s8: "script skenes_engine [''predict'', ''--help''] = ([ParserHelp], Some 0)"
    using exit_status [of skenes_engine "[''predict'', ''--help'']" _ ns "PyStr ''Paul Skenes''"
        "PyStr ''PHI''" "PyStr []" "PyBool False" "[]" "Raised (SystemExit 0) ''0''" 0
        "MissingRequired []"] parse_help
    by simp
  from s1 s2 s3 s4 s5 s6 m7 s7 s8 show ?thesis by simp
qed

end
